theory Spec2Isabelle
  imports Main "HOL-Library.Word" "HOL-Library.Signed_Division"
begin

section \<open>The USB mass-storage example: \<open>main/tusb_msc_main.cpp\<close>\<close>

text \<open>
  The program is one bring-up routine, \<open>app_main\<close>, and one helper, \<open>_mount\<close>. Everything
  it does is a call into a library (display, SPI/SD driver, FAT layer, USB stack), so the
  embedding records each call, with its arguments, as an \<open>event\<close> appended to a trace, and
  takes what the libraries answer from an environment \<open>env\<close>. The globals of the file
  (the three descriptor tables and the static \<open>card\<close> pointer) are fields of the state that
  is passed from statement to statement. The two \<open>while\<close> loops of \<open>app_main\<close> can run
  forever; they take fuel, and a run that uses it up ends \<open>Spinning\<close> inside the loop.
  The \<open>readdir\<close> loop of \<open>_mount\<close> runs over the entries of the directory, which the
  environment gives as a list.
\<close>

subsection \<open>Types of the libraries' interfaces\<close>

type_synonym esp_err_t = "32 word"

definition ESP_OK :: esp_err_t where
  "ESP_OK = 0"

definition ENOENT :: int where
  "ENOENT = 2"

text \<open>A \<open>sdmmc_card_t *\<close>: \<open>None\<close> is \<open>NULL\<close>.\<close>

type_synonym card_ptr = "nat option"

record spi_bus_config_t =
  mosi_io_num :: int
  miso_io_num :: int
  sclk_io_num :: int
  quadwp_io_num :: int
  quadhd_io_num :: int
  max_transfer_sz :: int

text \<open>
  Of the host and the device configuration only the fields that the program reads or
  sets are modelled; the others keep what the default macros give them.
\<close>

record sdmmc_host_t =
  slot :: int

record sdspi_device_config_t =
  host_id :: int
  gpio_cs :: int

record tusb_desc_device_t =
  bLength :: "8 word"
  bDescriptorType :: "8 word"
  bcdUSB :: "16 word"
  bDeviceClass :: "8 word"
  bDeviceSubClass :: "8 word"
  bDeviceProtocol :: "8 word"
  bMaxPacketSize0 :: "8 word"
  idVendor :: "16 word"
  idProduct :: "16 word"
  bcdDevice :: "16 word"
  iManufacturer :: "8 word"
  iProduct :: "8 word"
  iSerialNumber :: "8 word"
  bNumConfigurations :: "8 word"

text \<open>
  The configuration descriptor is written with two macros of the USB stack; the model
  keeps the macro calls with their arguments.
\<close>

datatype desc_item =
    TUD_CONFIG_DESCRIPTOR nat nat nat nat "8 word" nat
  | TUD_MSC_DESCRIPTOR nat nat "8 word" "8 word" nat

record tinyusb_config_t =
  device_descriptor :: tusb_desc_device_t
  string_descriptor :: "string list"
  string_descriptor_count :: nat
  external_phy :: bool
  configuration_descriptor :: "desc_item list"

datatype textdatum = top_center | middle_center
datatype color = WHITE | GREEN | Color nat
datatype font = FreeSansBold9pt7b
datatype image = image_data_background_1 | image_data_background_2

text \<open>
  Arguments of the \<open>printf\<close>-style calls. \<open>Arg_mb b\<close> stands for the float
  \<open>b / 1024.0 / 1024.0\<close> of the source; the formatting itself is not modelled.
\<close>

datatype fmt_arg = Arg_str string | Arg_mb "64 word"

datatype label = Sprintf string "fmt_arg list"

subsection \<open>The environment: header constants and the libraries' answers\<close>

record env =
  \<comment> \<open>constants of headers that are not part of the repository\<close>
  SDSPI_HOST_DEFAULT :: sdmmc_host_t
  SDSPI_DEVICE_CONFIG_DEFAULT :: sdspi_device_config_t
  SDSPI_DEFAULT_DMA :: int
  sizeof_sdmmc_card_t :: nat
  sizeof_tusb_desc_device_t :: "8 word"
  TUSB_DESC_DEVICE :: "8 word"
  TUSB_CLASS_MISC :: "8 word"
  MISC_SUBCLASS_COMMON :: "8 word"
  MISC_PROTOCOL_IAD :: "8 word"
  CFG_TUD_ENDPOINT0_SIZE :: "8 word"
  TUD_CONFIG_DESC_LEN :: nat
  TUD_MSC_DESC_LEN :: nat
  TUSB_DESC_CONFIG_ATT_REMOTE_WAKEUP :: "8 word"
  TUD_OPT_HIGH_SPEED :: bool
  \<comment> \<open>what each library call answers\<close>
  malloc_ret :: card_ptr
  spi_bus_initialize_ret :: esp_err_t
  sdspi_host_init_device_ret :: esp_err_t
  sdmmc_card_init_ret :: "nat \<Rightarrow> esp_err_t"  \<comment> \<open>by attempt, counted from 0\<close>
  tinyusb_msc_storage_init_sdmmc_ret :: esp_err_t
  tinyusb_msc_storage_mount_ret :: esp_err_t
  opendir_ret :: "string list option"  \<comment> \<open>\<open>None\<close>: \<open>NULL\<close>; else the entries \<open>readdir\<close> yields\<close>
  errno :: int
  esp_vfs_fat_info_ret :: esp_err_t
  esp_vfs_fat_info_out :: "(64 word \<times> 64 word) option"  \<comment> \<open>(total, free) when written\<close>
  Display_width :: int
  tinyusb_driver_install_ret :: esp_err_t
  BtnA_wasClicked_ret :: "nat \<Rightarrow> bool"  \<comment> \<open>by loop iteration, counted from 0\<close>

subsection \<open>Events and program state\<close>

datatype event =
    M5_begin
  | Display_setTextDatum textdatum
  | Display_setTextColor color
  | Display_setTextFont font
  | Display_setTextSize nat
  | Display_pushImage int int int int image
  | Display_drawString label int int
  | ESP_LOGI string "fmt_arg list"
  | ESP_LOGE string "fmt_arg list"
  | ESP_LOGD string "fmt_arg list"
  | Printf string "fmt_arg list"
  | Malloc nat
  | Free card_ptr  \<comment> \<open>\<open>free\<close>: no statement of the source calls it\<close>
  | Spi_bus_initialize int spi_bus_config_t int
  | Sdspi_host_init_device sdspi_device_config_t
  | Sdmmc_card_init sdmmc_host_t card_ptr
  | VTaskDelay_ms nat  \<comment> \<open>\<open>vTaskDelay(pdMS_TO_TICKS(ms))\<close>\<close>
  | Sdmmc_card_print_info card_ptr
  | Tinyusb_msc_storage_init_sdmmc card_ptr
  | Tinyusb_msc_storage_mount string
  | Opendir string
  | Readdir
  | Esp_vfs_fat_info string
  | Tinyusb_driver_install tinyusb_config_t
  | M5_update
  | BtnA_wasClicked
  | Esp_restart
  | Esp_error_check_failed esp_err_t

text \<open>How a run of \<open>app_main\<close> ends, or \<open>Spinning\<close> when the fuel ran out inside a loop.\<close>

datatype flow = Returned | Aborted esp_err_t | Restarted | Spinning

record state =
  card :: card_ptr
  dev_desc :: tusb_desc_device_t
  cfg_desc :: "desc_item list"
  str_desc :: "string list"
  trace :: "event list"

text \<open>A statement either falls through to the next one (\<open>None\<close>) or ends the run.\<close>

type_synonym stmt = "state \<Rightarrow> flow option \<times> state"

definition emit :: "event \<Rightarrow> state \<Rightarrow> state" where
  "emit ev s = s\<lparr>trace := trace s @ [ev]\<rparr>"

definition emits :: "event list \<Rightarrow> state \<Rightarrow> state" where
  "emits evs s = s\<lparr>trace := trace s @ evs\<rparr>"

fun run_seq :: "stmt list \<Rightarrow> stmt" where
  "run_seq [] s = (None, s)"
| "run_seq (c # cs) s =
     (case c s of
        (None, s') \<Rightarrow> run_seq cs s'
      | (Some f, s') \<Rightarrow> (Some f, s'))"

subsection \<open>Constants of the file (lines 35 to 97)\<close>

definition MOUNT_POINT :: string where
  "MOUNT_POINT = ''/sdcard''"

definition PIN_NUM_MISO :: int where "PIN_NUM_MISO = 8"
definition PIN_NUM_MOSI :: int where "PIN_NUM_MOSI = 6"
definition PIN_NUM_CLK :: int where "PIN_NUM_CLK = 7"
definition PIN_NUM_CS :: int where "PIN_NUM_CS = - 1"

definition EPNUM_MSC :: nat where "EPNUM_MSC = 1"

definition TUSB_DESC_TOTAL_LEN :: "env \<Rightarrow> nat" where
  "TUSB_DESC_TOTAL_LEN e = TUD_CONFIG_DESC_LEN e + TUD_MSC_DESC_LEN e"

definition ITF_NUM_MSC :: nat where "ITF_NUM_MSC = 0"
definition ITF_NUM_TOTAL :: nat where "ITF_NUM_TOTAL = 1"

definition EDPT_CTRL_OUT :: "8 word" where "EDPT_CTRL_OUT = 0x00"
definition EDPT_CTRL_IN :: "8 word" where "EDPT_CTRL_IN = 0x80"
definition EDPT_MSC_OUT :: "8 word" where "EDPT_MSC_OUT = 0x01"
definition EDPT_MSC_IN :: "8 word" where "EDPT_MSC_IN = 0x81"

definition desc_configuration :: "env \<Rightarrow> desc_item list" where
  "desc_configuration e =
     [TUD_CONFIG_DESCRIPTOR 1 ITF_NUM_TOTAL 0 (TUSB_DESC_TOTAL_LEN e)
        (TUSB_DESC_CONFIG_ATT_REMOTE_WAKEUP e) 100,
      TUD_MSC_DESCRIPTOR ITF_NUM_MSC 0 EDPT_MSC_OUT EDPT_MSC_IN
        (if TUD_OPT_HIGH_SPEED e then 512 else 64)]"

definition descriptor_config :: "env \<Rightarrow> tusb_desc_device_t" where
  "descriptor_config e =
     \<lparr>bLength = sizeof_tusb_desc_device_t e,
      bDescriptorType = TUSB_DESC_DEVICE e,
      bcdUSB = 0x0200,
      bDeviceClass = TUSB_CLASS_MISC e,
      bDeviceSubClass = MISC_SUBCLASS_COMMON e,
      bDeviceProtocol = MISC_PROTOCOL_IAD e,
      bMaxPacketSize0 = CFG_TUD_ENDPOINT0_SIZE e,
      idVendor = 0x303A,
      idProduct = 0x4002,
      bcdDevice = 0x100,
      iManufacturer = 0x01,
      iProduct = 0x02,
      iSerialNumber = 0x03,
      bNumConfigurations = 0x01\<rparr>"

definition string_desc_arr :: "string list" where
  "string_desc_arr =
     [[CHR 0x09, CHR 0x04], ''TinyUSB'', ''TinyUSB Device'', ''123456'', ''Example MSC'']"

definition BASE_PATH :: string where
  "BASE_PATH = ''/data''"

text \<open>The memory at the entry of \<open>app_main\<close>: the static \<open>card\<close> is \<open>NULL\<close> (line 141).\<close>

definition boot :: "env \<Rightarrow> state" where
  "boot e =
     \<lparr>card = None,
      dev_desc = descriptor_config e,
      cfg_desc = desc_configuration e,
      str_desc = string_desc_arr,
      trace = []\<rparr>"

subsection \<open>The fatal check macro\<close>

text \<open>
  Modelled from the spec: the macro \<open>ESP_ERROR_CHECK\<close> belongs to a header that is not in
  the repository. The spec calls it a fatal check macro that logs and aborts when the
  checked return code is a failure; on \<open>ESP_OK\<close> it does nothing.
\<close>

definition ESP_ERROR_CHECK :: "esp_err_t \<Rightarrow> stmt" where
  "ESP_ERROR_CHECK rc s =
     (if rc \<noteq> ESP_OK then (Some (Aborted rc), emit (Esp_error_check_failed rc) s)
      else (None, s))"

subsection \<open>\<open>_mount\<close> (lines 102 to 125)\<close>

fun readdir_loop :: "string list \<Rightarrow> state \<Rightarrow> state" where
  "readdir_loop [] s = emit Readdir s"
| "readdir_loop (d_name # ds) s =
     readdir_loop ds (emit (Printf (''%s'' @ [CHR 0x0A]) [Arg_str d_name]) (emit Readdir s))"

definition u_mount :: "env \<Rightarrow> stmt" where
  "u_mount e s =
     (let s1 = emit (Tinyusb_msc_storage_mount BASE_PATH)
                 (emit (ESP_LOGI ''Mount storage...'' []) s)
      in case ESP_ERROR_CHECK (tinyusb_msc_storage_mount_ret e) s1 of
           (Some f, s2) \<Rightarrow> (Some f, s2)
         | (None, s2) \<Rightarrow>
             (let s3 = emit (Opendir BASE_PATH)
                         (emit (ESP_LOGI (CHR 0x0A # ''ls command output:'') []) s2)
              in case opendir_ret e of
                   None \<Rightarrow>
                     (if errno e = ENOENT
                      then (None, emit (ESP_LOGE ''Directory doesn't exist %s''
                                          [Arg_str BASE_PATH]) s3)
                      else (None, emit (ESP_LOGE ''Unable to read directory %s''
                                          [Arg_str BASE_PATH]) s3))
                 | Some ds \<Rightarrow> (None, readdir_loop ds s3)))"

subsection \<open>\<open>app_main\<close> (lines 128 to 252)\<close>

text \<open>Lines 129 to 135: the display is set up and the first background is drawn.\<close>

definition display_init :: stmt where
  "display_init s =
     (None, emits [M5_begin,
                   Display_setTextDatum top_center,
                   Display_setTextColor WHITE,
                   Display_setTextDatum middle_center,
                   Display_setTextFont FreeSansBold9pt7b,
                   Display_setTextSize 1,
                   Display_pushImage 0 0 128 128 image_data_background_1] s)"

text \<open>Lines 139 to 146: the only assignment to \<open>card\<close>.\<close>

definition card_alloc :: "env \<Rightarrow> stmt" where
  "card_alloc e s =
     (let s1 = emit (ESP_LOGI ''Initializing storage...'' []) s;
          s2 = (emit (Malloc (sizeof_sdmmc_card_t e)) s1)\<lparr>card := malloc_ret e\<rparr>
      in if card s2 = None
         then (None, emit (ESP_LOGD ''could not locate new sdmmc_card_t'' []) s2)
         else (None, s2))"

definition bus_cfg :: spi_bus_config_t where
  "bus_cfg =
     \<lparr>mosi_io_num = PIN_NUM_MOSI,
      miso_io_num = PIN_NUM_MISO,
      sclk_io_num = PIN_NUM_CLK,
      quadwp_io_num = - 1,
      quadhd_io_num = - 1,
      max_transfer_sz = 4000\<rparr>"

text \<open>
  Lines 148 to 155 initialise a local \<open>mount_config\<close> that no later statement reads; it
  has no counterpart here. Lines 157 to 179 bring up the SPI bus.
\<close>

definition bus_init :: "env \<Rightarrow> stmt" where
  "bus_init e s =
     (let s1 = emits [ESP_LOGI ''Initializing SD card'' [],
                      ESP_LOGI ''Using SPI peripheral'' []] s;
          host = SDSPI_HOST_DEFAULT e;
          s2 = emit (Spi_bus_initialize (slot host) bus_cfg (SDSPI_DEFAULT_DMA e)) s1;
          ret = spi_bus_initialize_ret e
      in if ret \<noteq> ESP_OK
         then (Some Returned, emit (ESP_LOGE ''Failed to initialize bus.'' []) s2)
         else (None, s2))"

text \<open>Lines 184 to 189: the return code of \<open>sdspi_host_init_device\<close> is dropped.\<close>

definition slot_init :: "env \<Rightarrow> stmt" where
  "slot_init e s =
     (let host = SDSPI_HOST_DEFAULT e;
          slot_config = (SDSPI_DEVICE_CONFIG_DEFAULT e)\<lparr>gpio_cs := PIN_NUM_CS,
                                                         host_id := slot host\<rparr>
      in (None, emit (Sdspi_host_init_device slot_config) s))"

text \<open>
  Lines 191 to 194. \<open>k\<close> counts the attempts made so far; the loop returns \<open>True\<close> when
  it was left, \<open>False\<close> when the fuel ran out first.
\<close>

fun card_init_loop :: "nat \<Rightarrow> env \<Rightarrow> nat \<Rightarrow> state \<Rightarrow> bool \<times> state" where
  "card_init_loop 0 e k s = (False, s)"
| "card_init_loop (Suc fuel) e k s =
     (let s1 = emit (Sdmmc_card_init (SDSPI_HOST_DEFAULT e) (card s)) s
      in if sdmmc_card_init_ret e k \<noteq> ESP_OK
         then card_init_loop fuel e (Suc k)
                (emit (VTaskDelay_ms 1000)
                   (emit (ESP_LOGE ''Failed to initialize sdcard.'' []) s1))
         else (True, s1))"

definition card_init :: "nat \<Rightarrow> env \<Rightarrow> stmt" where
  "card_init fuel e s =
     (case card_init_loop fuel e 0 s of
        (True, s1) \<Rightarrow> (None, emit (ESP_LOGI ''Success initialize sdcard.'' []) s1)
      | (False, s1) \<Rightarrow> (Some Spinning, s1))"

text \<open>Lines 201 to 205.\<close>

definition storage_init :: "env \<Rightarrow> stmt" where
  "storage_init e s =
     (let s1 = emit (Display_pushImage 0 0 128 128 image_data_background_2) s;
          s2 = emit (Sdmmc_card_print_info (card s1)) s1;
          s3 = emit (Tinyusb_msc_storage_init_sdmmc (card s2)) s2
      in ESP_ERROR_CHECK (tinyusb_msc_storage_init_sdmmc_ret e) s3)"

text \<open>
  Lines 210 to 231: the sizes start at 0 and hold what \<open>esp_vfs_fat_info\<close> wrote; its
  return code is dropped. The division of the width is C's, truncating.
\<close>

definition show_status :: "env \<Rightarrow> stmt" where
  "show_status e s =
     (let s1 = emit (Esp_vfs_fat_info BASE_PATH) s;
          (out_total_bytes, out_free_bytes) =
             (case esp_vfs_fat_info_out e of None \<Rightarrow> (0, 0) | Some tf \<Rightarrow> tf);
          free_mb = Arg_mb out_free_bytes;
          total_mb = Arg_mb out_total_bytes;
          s2 = emit (ESP_LOGI (''Size: %.1f/%.1fMB'' @ [CHR 0x0A]) [free_mb, total_mb]) s1;
          free = Sprintf ''F: %.1fMB'' [free_mb];
          total = Sprintf ''T: %.1fMB'' [total_mb]
      in (None, emits [Display_setTextColor GREEN,
                       Display_drawString free (Display_width e sdiv 2) 52,
                       Display_setTextColor (Color 0x4e7f),
                       Display_drawString total (Display_width e sdiv 2) 97] s2))"

text \<open>Lines 233 to 243: the descriptor tables are handed to the USB stack.\<close>

definition usb_install :: "env \<Rightarrow> stmt" where
  "usb_install e s =
     (let s1 = emit (ESP_LOGI ''USB MSC initialization'' []) s;
          tusb_cfg = \<lparr>device_descriptor = dev_desc s1,
                      string_descriptor = str_desc s1,
                      string_descriptor_count = length (str_desc s1),
                      external_phy = False,
                      configuration_descriptor = cfg_desc s1\<rparr>;
          s2 = emit (Tinyusb_driver_install tusb_cfg) s1
      in case ESP_ERROR_CHECK (tinyusb_driver_install_ret e) s2 of
           (Some f, s3) \<Rightarrow> (Some f, s3)
         | (None, s3) \<Rightarrow> (None, emit (ESP_LOGI ''USB MSC initialization DONE'' []) s3))"

text \<open>
  Lines 245 to 251. \<open>esp_restart\<close> is a library call that restarts the chip and does not
  come back, so the run ends there.
\<close>

fun poll_loop :: "nat \<Rightarrow> env \<Rightarrow> nat \<Rightarrow> state \<Rightarrow> flow \<times> state" where
  "poll_loop 0 e k s = (Spinning, s)"
| "poll_loop (Suc fuel) e k s =
     (let s1 = emit BtnA_wasClicked (emit M5_update s)
      in if BtnA_wasClicked_ret e k
         then (Restarted, emit Esp_restart s1)
         else poll_loop fuel e (Suc k) (emit (VTaskDelay_ms 100) s1))"

definition idle :: "nat \<Rightarrow> env \<Rightarrow> stmt" where
  "idle fuel e s = (case poll_loop fuel e 0 s of (f, s1) \<Rightarrow> (Some f, s1))"

definition startup :: "nat \<Rightarrow> env \<Rightarrow> stmt list" where
  "startup fuel e =
     [display_init, card_alloc e, bus_init e, slot_init e, card_init fuel e,
      storage_init e, u_mount e, show_status e, usb_install e]"

definition app_main :: "nat \<Rightarrow> env \<Rightarrow> flow option \<times> state" where
  "app_main fuel e = run_seq (startup fuel e @ [idle fuel e]) (boot e)"

section \<open>Names used to state the properties\<close>

subsection \<open>The result of a run\<close>

abbreviation app_main_flow :: "nat \<Rightarrow> env \<Rightarrow> flow option" where
  "app_main_flow fuel e \<equiv> fst (app_main fuel e)"

abbreviation app_main_trace :: "nat \<Rightarrow> env \<Rightarrow> event list" where
  "app_main_trace fuel e \<equiv> trace (snd (app_main fuel e))"

subsection \<open>Segments of a trace\<close>

text \<open>
  The events of the straight-line parts of \<open>app_main\<close>, up to each of the points where a
  run can end; \<open>n\<close> is the number of failed card initialisations. \<open>listing\<close> is what
  \<open>_mount\<close> emits after a successful mount.
\<close>

abbreviation retry_round :: "env \<Rightarrow> card_ptr \<Rightarrow> event list" where
  "retry_round e c \<equiv>
     [Sdmmc_card_init (SDSPI_HOST_DEFAULT e) c,
      ESP_LOGE ''Failed to initialize sdcard.'' [],
      VTaskDelay_ms 1000]"

abbreviation idle_round :: "event list" where
  "idle_round \<equiv> [M5_update, BtnA_wasClicked, VTaskDelay_ms 100]"

abbreviation before_bus :: "env \<Rightarrow> event list" where
  "before_bus e \<equiv>
     [M5_begin,
      Display_setTextDatum top_center,
      Display_setTextColor WHITE,
      Display_setTextDatum middle_center,
      Display_setTextFont FreeSansBold9pt7b,
      Display_setTextSize 1,
      Display_pushImage 0 0 128 128 image_data_background_1,
      ESP_LOGI ''Initializing storage...'' [],
      Malloc (sizeof_sdmmc_card_t e)] @
     (if malloc_ret e = None then [ESP_LOGD ''could not locate new sdmmc_card_t'' []] else []) @
     [ESP_LOGI ''Initializing SD card'' [],
      ESP_LOGI ''Using SPI peripheral'' [],
      Spi_bus_initialize (slot (SDSPI_HOST_DEFAULT e)) bus_cfg (SDSPI_DEFAULT_DMA e)]"

abbreviation upto_card :: "env \<Rightarrow> nat \<Rightarrow> event list" where
  "upto_card e n \<equiv>
     before_bus e @
     [Sdspi_host_init_device
        ((SDSPI_DEVICE_CONFIG_DEFAULT e)\<lparr>gpio_cs := PIN_NUM_CS,
                                        host_id := slot (SDSPI_HOST_DEFAULT e)\<rparr>)] @
     concat (replicate n (retry_round e (malloc_ret e)))"

abbreviation upto_storage :: "env \<Rightarrow> nat \<Rightarrow> event list" where
  "upto_storage e n \<equiv>
     upto_card e n @
     [Sdmmc_card_init (SDSPI_HOST_DEFAULT e) (malloc_ret e),
      ESP_LOGI ''Success initialize sdcard.'' [],
      Display_pushImage 0 0 128 128 image_data_background_2,
      Sdmmc_card_print_info (malloc_ret e),
      Tinyusb_msc_storage_init_sdmmc (malloc_ret e)]"

abbreviation upto_mount :: "env \<Rightarrow> nat \<Rightarrow> event list" where
  "upto_mount e n \<equiv>
     upto_storage e n @
     [ESP_LOGI ''Mount storage...'' [],
      Tinyusb_msc_storage_mount BASE_PATH]"

definition listing :: "env \<Rightarrow> event list" where
  "listing e =
     [ESP_LOGI (CHR 0x0A # ''ls command output:'') [],
      Opendir BASE_PATH] @
     (case opendir_ret e of
        None \<Rightarrow>
          [ESP_LOGE (if errno e = ENOENT then ''Directory doesn't exist %s''
                     else ''Unable to read directory %s'') [Arg_str BASE_PATH]]
      | Some ds \<Rightarrow>
          concat (map (\<lambda>d. [Readdir, Printf (''%s'' @ [CHR 0x0A]) [Arg_str d]]) ds) @ [Readdir])"

abbreviation fat_sizes :: "env \<Rightarrow> 64 word \<times> 64 word" where
  "fat_sizes e \<equiv> (case esp_vfs_fat_info_out e of None \<Rightarrow> (0, 0) | Some tf \<Rightarrow> tf)"

abbreviation tusb_cfg :: "env \<Rightarrow> tinyusb_config_t" where
  "tusb_cfg e \<equiv>
     \<lparr>device_descriptor = descriptor_config e,
      string_descriptor = string_desc_arr,
      string_descriptor_count = length string_desc_arr,
      external_phy = False,
      configuration_descriptor = desc_configuration e\<rparr>"

abbreviation upto_install :: "env \<Rightarrow> nat \<Rightarrow> event list" where
  "upto_install e n \<equiv>
     upto_mount e n @ listing e @
     [Esp_vfs_fat_info BASE_PATH,
      ESP_LOGI (''Size: %.1f/%.1fMB'' @ [CHR 0x0A])
        [Arg_mb (snd (fat_sizes e)), Arg_mb (fst (fat_sizes e))],
      Display_setTextColor GREEN,
      Display_drawString (Sprintf ''F: %.1fMB'' [Arg_mb (snd (fat_sizes e))])
        (Display_width e sdiv 2) 52,
      Display_setTextColor (Color 0x4e7f),
      Display_drawString (Sprintf ''T: %.1fMB'' [Arg_mb (fst (fat_sizes e))])
        (Display_width e sdiv 2) 97,
      ESP_LOGI ''USB MSC initialization'' [],
      Tinyusb_driver_install (tusb_cfg e)]"

abbreviation final :: "env \<Rightarrow> event list \<Rightarrow> state" where
  "final e t \<equiv> (boot e)\<lparr>card := malloc_ret e, trace := t\<rparr>"

subsection \<open>Observers of events\<close>


fun reads_descriptors :: "event \<Rightarrow> bool" where
  "reads_descriptors (Tinyusb_driver_install _) = True"
| "reads_descriptors _ = False"

fun step_of :: "event \<Rightarrow> nat option" where
  "step_of (Spi_bus_initialize _ _ _) = Some 1"
| "step_of (Sdspi_host_init_device _) = Some 2"
| "step_of (Sdmmc_card_init _ _) = Some 2"
| "step_of (Tinyusb_msc_storage_mount _) = Some 3"
| "step_of (Display_drawString _ _ _) = Some 4"
| "step_of (Tinyusb_driver_install _) = Some 5"
| "step_of M5_update = Some 6"
| "step_of BtnA_wasClicked = Some 6"
| "step_of _ = None"

definition steps :: "event list \<Rightarrow> nat list" where
  "steps t = List.map_filter step_of t"

subsection \<open>A sample environment\<close>

text \<open>
  Every call succeeds, the card answers at the third attempt, the directory has two
  entries and button A is clicked at the fourth poll.
\<close>

definition sample_env :: env where
  "sample_env =
     \<lparr>SDSPI_HOST_DEFAULT = \<lparr>slot = 1\<rparr>,
      SDSPI_DEVICE_CONFIG_DEFAULT = \<lparr>host_id = 1, gpio_cs = 13\<rparr>,
      SDSPI_DEFAULT_DMA = 3,
      sizeof_sdmmc_card_t = 128,
      sizeof_tusb_desc_device_t = 18,
      TUSB_DESC_DEVICE = 1,
      TUSB_CLASS_MISC = 0xEF,
      MISC_SUBCLASS_COMMON = 2,
      MISC_PROTOCOL_IAD = 1,
      CFG_TUD_ENDPOINT0_SIZE = 64,
      TUD_CONFIG_DESC_LEN = 9,
      TUD_MSC_DESC_LEN = 23,
      TUSB_DESC_CONFIG_ATT_REMOTE_WAKEUP = 0x20,
      TUD_OPT_HIGH_SPEED = False,
      malloc_ret = Some 4096,
      spi_bus_initialize_ret = 0,
      sdspi_host_init_device_ret = 0,
      sdmmc_card_init_ret = (\<lambda>k. if k < 2 then 0x107 else 0),
      tinyusb_msc_storage_init_sdmmc_ret = 0,
      tinyusb_msc_storage_mount_ret = 0,
      opendir_ret = Some [''a.txt'', ''b''],
      errno = 0,
      esp_vfs_fat_info_ret = 0,
      esp_vfs_fat_info_out = Some (1048576, 524288),
      Display_width = 128,
      tinyusb_driver_install_ret = 0,
      BtnA_wasClicked_ret = (\<lambda>k. k = 3)\<rparr>"

section \<open>Lemmas\<close>

subsection \<open>Appending to the trace\<close>

lemma emit_emits: "emit ev s = emits [ev] s"
  by (simp add: emit_def emits_def)

lemma emits_emits: "emits b (emits a s) = emits (a @ b) s"
  by (simp add: emits_def)

lemma emits_sel [simp]:
  "card (emits t s) = card s"
  "dev_desc (emits t s) = dev_desc s"
  "cfg_desc (emits t s) = cfg_desc s"
  "str_desc (emits t s) = str_desc s"
  "trace (emits t s) = trace s @ t"
  by (simp_all add: emits_def)

lemma readdir_loop_emits:
  "readdir_loop ds s =
     emits (concat (map (\<lambda>d. [Readdir, Printf (''%s'' @ [CHR 0x0A]) [Arg_str d]]) ds) @ [Readdir]) s"
  by (induction ds arbitrary: s) (simp_all add: emit_emits emits_emits)

subsection \<open>The first index at which something happens\<close>

lemma first_cases [case_names first none]:
  fixes P :: "nat \<Rightarrow> bool"
  assumes "\<And>n. n < fuel \<Longrightarrow> \<forall>j<n. \<not> P j \<Longrightarrow> P n \<Longrightarrow> thesis"
    and "\<forall>j<fuel. \<not> P j \<Longrightarrow> thesis"
  shows thesis
proof (cases "\<exists>j<fuel. P j")
  case True
  then obtain j where j: "j < fuel" "P j" by blast
  define n where "n = (LEAST i. P i)"
  have "P n" unfolding n_def using j(2) by (rule LeastI)
  moreover have "n \<le> j" unfolding n_def using j(2) by (rule Least_le)
  moreover have "\<forall>i<n. \<not> P i" unfolding n_def using not_less_Least by blast
  ultimately show thesis using assms(1) [of n] j(1) by simp
next
  case False
  then show thesis using assms(2) by blast
qed

subsection \<open>The two loops\<close>

lemma card_init_loop_found:
  "n < fuel \<Longrightarrow> \<forall>j<n. sdmmc_card_init_ret e (k + j) \<noteq> ESP_OK \<Longrightarrow>
   sdmmc_card_init_ret e (k + n) = ESP_OK \<Longrightarrow>
   card_init_loop fuel e k s =
     (True, emits (concat (replicate n (retry_round e (card s))) @
                   [Sdmmc_card_init (SDSPI_HOST_DEFAULT e) (card s)]) s)"
proof (induction n arbitrary: fuel k s)
  case 0
  then obtain f where "fuel = Suc f" by (cases fuel) auto
  with 0 show ?case by (simp add: emit_emits)
next
  case (Suc n)
  then obtain f where f: "fuel = Suc f" by (cases fuel) auto
  from Suc.prems(2) have now: "sdmmc_card_init_ret e k \<noteq> ESP_OK"
    by (metis add_0_right zero_less_Suc)
  from Suc.prems(2) have later: "\<forall>j<n. sdmmc_card_init_ret e (Suc k + j) \<noteq> ESP_OK"
    by (metis Suc_less_eq add_Suc_shift)
  from Suc.prems(3) have last: "sdmmc_card_init_ret e (Suc k + n) = ESP_OK"
    by simp
  from Suc.prems(1) f have "n < f" by simp
  from Suc.IH [OF this later last] now f show ?case
    by (simp add: emit_emits emits_emits)
qed

lemma card_init_loop_spinning:
  "\<forall>j<fuel. sdmmc_card_init_ret e (k + j) \<noteq> ESP_OK \<Longrightarrow>
   card_init_loop fuel e k s =
     (False, emits (concat (replicate fuel (retry_round e (card s)))) s)"
proof (induction fuel arbitrary: k s)
  case 0
  show ?case by (simp add: emits_def)
next
  case (Suc fuel)
  from Suc.prems have now: "sdmmc_card_init_ret e k \<noteq> ESP_OK"
    by (metis add_0_right zero_less_Suc)
  from Suc.prems have later: "\<forall>j<fuel. sdmmc_card_init_ret e (Suc k + j) \<noteq> ESP_OK"
    by (metis Suc_less_eq add_Suc_shift)
  from Suc.IH [OF later] now show ?case
    by (simp add: emit_emits emits_emits)
qed

lemma poll_loop_restarted:
  "m < fuel \<Longrightarrow> \<forall>j<m. \<not> BtnA_wasClicked_ret e (k + j) \<Longrightarrow>
   BtnA_wasClicked_ret e (k + m) \<Longrightarrow>
   poll_loop fuel e k s =
     (Restarted, emits (concat (replicate m idle_round) @
                        [M5_update, BtnA_wasClicked, Esp_restart]) s)"
proof (induction m arbitrary: fuel k s)
  case 0
  then obtain f where "fuel = Suc f" by (cases fuel) auto
  with 0 show ?case by (simp add: emit_emits emits_emits)
next
  case (Suc m)
  then obtain f where f: "fuel = Suc f" by (cases fuel) auto
  from Suc.prems(2) have now: "\<not> BtnA_wasClicked_ret e k"
    by (metis add_0_right zero_less_Suc)
  from Suc.prems(2) have later: "\<forall>j<m. \<not> BtnA_wasClicked_ret e (Suc k + j)"
    by (metis Suc_less_eq add_Suc_shift)
  from Suc.prems(3) have last: "BtnA_wasClicked_ret e (Suc k + m)"
    by simp
  from Suc.prems(1) f have "m < f" by simp
  from Suc.IH [OF this later last] now f show ?case
    by (simp add: emit_emits emits_emits)
qed

lemma poll_loop_spinning:
  "\<forall>j<fuel. \<not> BtnA_wasClicked_ret e (k + j) \<Longrightarrow>
   poll_loop fuel e k s = (Spinning, emits (concat (replicate fuel idle_round)) s)"
proof (induction fuel arbitrary: k s)
  case 0
  show ?case by (simp add: emits_def)
next
  case (Suc fuel)
  from Suc.prems have now: "\<not> BtnA_wasClicked_ret e k"
    by (metis add_0_right zero_less_Suc)
  from Suc.prems have later: "\<forall>j<fuel. \<not> BtnA_wasClicked_ret e (Suc k + j)"
    by (metis Suc_less_eq add_Suc_shift)
  from Suc.IH [OF later] now show ?case
    by (simp add: emit_emits emits_emits)
qed

lemma card_init_found:
  assumes "n < fuel" "\<forall>j<n. sdmmc_card_init_ret e j \<noteq> ESP_OK"
    "sdmmc_card_init_ret e n = ESP_OK"
  shows "card_init fuel e s =
           (None, emits (concat (replicate n (retry_round e (card s))) @
                         [Sdmmc_card_init (SDSPI_HOST_DEFAULT e) (card s),
                          ESP_LOGI ''Success initialize sdcard.'' []]) s)"
  using card_init_loop_found [of n fuel e 0 s] assms
  by (simp add: card_init_def emit_emits emits_emits)

lemma card_init_spinning:
  assumes "\<forall>j<fuel. sdmmc_card_init_ret e j \<noteq> ESP_OK"
  shows "card_init fuel e s =
           (Some Spinning, emits (concat (replicate fuel (retry_round e (card s)))) s)"
  using card_init_loop_spinning [of fuel e 0 s] assms by (simp add: card_init_def)

lemma idle_restarted:
  assumes "m < fuel" "\<forall>j<m. \<not> BtnA_wasClicked_ret e j" "BtnA_wasClicked_ret e m"
  shows "idle fuel e s =
           (Some Restarted, emits (concat (replicate m idle_round) @
                                   [M5_update, BtnA_wasClicked, Esp_restart]) s)"
  using poll_loop_restarted [of m fuel e 0 s] assms by (simp add: idle_def)

lemma idle_spinning:
  assumes "\<forall>j<fuel. \<not> BtnA_wasClicked_ret e j"
  shows "idle fuel e s = (Some Spinning, emits (concat (replicate fuel idle_round)) s)"
  using poll_loop_spinning [of fuel e 0 s] assms by (simp add: idle_def)

subsection \<open>The straight-line statements\<close>

lemma listing_set:
  "ev \<in> set (listing e) \<Longrightarrow>
     ev = ESP_LOGI (CHR 0x0A # ''ls command output:'') [] \<or>
     ev = Opendir BASE_PATH \<or>
     ev = Readdir \<or>
     (\<exists>f. ev = ESP_LOGE f [Arg_str BASE_PATH]) \<or>
     (\<exists>d. ev = Printf (''%s'' @ [CHR 0x0A]) [Arg_str d])"
  by (auto simp add: listing_def split: option.splits if_splits)

lemma opendir_listing: "Opendir BASE_PATH \<in> set (listing e)"
  by (simp add: listing_def)

lemma filter_listing:
  assumes "\<not> P (ESP_LOGI (CHR 0x0A # ''ls command output:'') [])"
    and "\<not> P (Opendir BASE_PATH)"
    and "\<not> P Readdir"
    and "\<And>f. \<not> P (ESP_LOGE f [Arg_str BASE_PATH])"
    and "\<And>d. \<not> P (Printf (''%s'' @ [CHR 0x0A]) [Arg_str d])"
  shows "filter P (listing e) = []"
  unfolding filter_empty_conv using assms listing_set [of _ e] by blast

lemma final_emits: "emits t (final e u) = final e (u @ t)"
  by (simp add: emits_def)

lemma upto_bus_run:
  "run_seq (display_init # card_alloc e # bus_init e # cs) (boot e) =
     (if spi_bus_initialize_ret e \<noteq> ESP_OK
      then (Some Returned, final e (before_bus e @ [ESP_LOGE ''Failed to initialize bus.'' []]))
      else run_seq cs (final e (before_bus e)))"
  by (simp add: display_init_def card_alloc_def bus_init_def boot_def emit_def emits_def Let_def)

lemma slot_init_final:
  "slot_init e (final e t) =
     (None, final e (t @ [Sdspi_host_init_device
        ((SDSPI_DEVICE_CONFIG_DEFAULT e)\<lparr>gpio_cs := PIN_NUM_CS,
                                        host_id := slot (SDSPI_HOST_DEFAULT e)\<rparr>)]))"
  by (simp add: slot_init_def emit_def Let_def)

lemma storage_init_final:
  "storage_init e (final e t) =
     (if tinyusb_msc_storage_init_sdmmc_ret e \<noteq> ESP_OK
      then (Some (Aborted (tinyusb_msc_storage_init_sdmmc_ret e)),
            final e (t @ [Display_pushImage 0 0 128 128 image_data_background_2,
                          Sdmmc_card_print_info (malloc_ret e),
                          Tinyusb_msc_storage_init_sdmmc (malloc_ret e),
                          Esp_error_check_failed (tinyusb_msc_storage_init_sdmmc_ret e)]))
      else (None,
            final e (t @ [Display_pushImage 0 0 128 128 image_data_background_2,
                          Sdmmc_card_print_info (malloc_ret e),
                          Tinyusb_msc_storage_init_sdmmc (malloc_ret e)])))"
  by (simp add: storage_init_def ESP_ERROR_CHECK_def emit_def Let_def)

lemma u_mount_final:
  "u_mount e (final e t) =
     (if tinyusb_msc_storage_mount_ret e \<noteq> ESP_OK
      then (Some (Aborted (tinyusb_msc_storage_mount_ret e)),
            final e (t @ [ESP_LOGI ''Mount storage...'' [],
                          Tinyusb_msc_storage_mount BASE_PATH,
                          Esp_error_check_failed (tinyusb_msc_storage_mount_ret e)]))
      else (None,
            final e (t @ [ESP_LOGI ''Mount storage...'' [],
                          Tinyusb_msc_storage_mount BASE_PATH] @ listing e)))"
  by (simp add: u_mount_def ESP_ERROR_CHECK_def readdir_loop_emits emit_def emits_def Let_def
        listing_def split: option.splits)

lemma show_status_final:
  "show_status e (final e t) =
     (None,
      final e (t @
        [Esp_vfs_fat_info BASE_PATH,
         ESP_LOGI (''Size: %.1f/%.1fMB'' @ [CHR 0x0A])
           [Arg_mb (snd (fat_sizes e)), Arg_mb (fst (fat_sizes e))],
         Display_setTextColor GREEN,
         Display_drawString (Sprintf ''F: %.1fMB'' [Arg_mb (snd (fat_sizes e))])
           (Display_width e sdiv 2) 52,
         Display_setTextColor (Color 0x4e7f),
         Display_drawString (Sprintf ''T: %.1fMB'' [Arg_mb (fst (fat_sizes e))])
           (Display_width e sdiv 2) 97]))"
  by (simp add: show_status_def emit_def emits_def Let_def split: option.splits prod.splits)

lemma usb_install_final:
  "usb_install e (final e t) =
     (if tinyusb_driver_install_ret e \<noteq> ESP_OK
      then (Some (Aborted (tinyusb_driver_install_ret e)),
            final e (t @ [ESP_LOGI ''USB MSC initialization'' [],
                          Tinyusb_driver_install (tusb_cfg e),
                          Esp_error_check_failed (tinyusb_driver_install_ret e)]))
      else (None,
            final e (t @ [ESP_LOGI ''USB MSC initialization'' [],
                          Tinyusb_driver_install (tusb_cfg e),
                          ESP_LOGI ''USB MSC initialization DONE'' []])))"
  by (simp add: usb_install_def ESP_ERROR_CHECK_def emit_def Let_def boot_def)

lemma app_main_run:
  "app_main fuel e =
     (if spi_bus_initialize_ret e \<noteq> ESP_OK
      then (Some Returned, final e (before_bus e @ [ESP_LOGE ''Failed to initialize bus.'' []]))
      else run_seq [slot_init e, card_init fuel e, storage_init e, u_mount e, show_status e,
                    usb_install e, idle fuel e] (final e (before_bus e)))"
  using upto_bus_run [of e "[slot_init e, card_init fuel e, storage_init e, u_mount e,
                              show_status e, usb_install e, idle fuel e]"]
  by (simp add: app_main_def startup_def del: run_seq.simps)

subsection \<open>Every run of \<open>app_main\<close>, by the answers of the libraries\<close>

lemma app_main_bus_failed:
  assumes "spi_bus_initialize_ret e \<noteq> ESP_OK"
  shows "app_main fuel e =
         (Some Returned, final e (before_bus e @ [ESP_LOGE ''Failed to initialize bus.'' []]))"
  using assms by (simp add: app_main_run)

lemma app_main_card_absent:
  assumes "spi_bus_initialize_ret e = ESP_OK"
    and "\<forall>j<fuel. sdmmc_card_init_ret e j \<noteq> ESP_OK"
  shows "app_main fuel e = (Some Spinning, final e (upto_card e fuel))"
  by (simp add: app_main_run assms(1) slot_init_final card_init_spinning [OF assms(2)]
        final_emits)

lemma app_main_card_found:
  assumes "spi_bus_initialize_ret e = ESP_OK"
    and "n < fuel" "\<forall>j<n. sdmmc_card_init_ret e j \<noteq> ESP_OK" "sdmmc_card_init_ret e n = ESP_OK"
  shows "app_main fuel e =
      run_seq [storage_init e, u_mount e, show_status e, usb_install e, idle fuel e]
        (final e (upto_card e n @
           [Sdmmc_card_init (SDSPI_HOST_DEFAULT e) (malloc_ret e),
            ESP_LOGI ''Success initialize sdcard.'' []]))"
  by (simp add: app_main_run assms(1) slot_init_final card_init_found [OF assms(2,3,4)]
        final_emits)

lemma app_main_storage_failed:
  assumes "spi_bus_initialize_ret e = ESP_OK"
    and "n < fuel" "\<forall>j<n. sdmmc_card_init_ret e j \<noteq> ESP_OK" "sdmmc_card_init_ret e n = ESP_OK"
    and "tinyusb_msc_storage_init_sdmmc_ret e \<noteq> ESP_OK"
  shows "app_main fuel e =
         (Some (Aborted (tinyusb_msc_storage_init_sdmmc_ret e)),
          final e (upto_storage e n @
            [Esp_error_check_failed (tinyusb_msc_storage_init_sdmmc_ret e)]))"
  by (simp add: app_main_card_found [OF assms(1,2,3,4)] storage_init_final assms(5))

lemma app_main_mount_failed:
  assumes "spi_bus_initialize_ret e = ESP_OK"
    and "n < fuel" "\<forall>j<n. sdmmc_card_init_ret e j \<noteq> ESP_OK" "sdmmc_card_init_ret e n = ESP_OK"
    and "tinyusb_msc_storage_init_sdmmc_ret e = ESP_OK"
    and "tinyusb_msc_storage_mount_ret e \<noteq> ESP_OK"
  shows "app_main fuel e =
         (Some (Aborted (tinyusb_msc_storage_mount_ret e)),
          final e (upto_mount e n @
            [Esp_error_check_failed (tinyusb_msc_storage_mount_ret e)]))"
  by (simp add: app_main_card_found [OF assms(1,2,3,4)] storage_init_final assms(5)
        u_mount_final assms(6))

lemma app_main_install_failed:
  assumes "spi_bus_initialize_ret e = ESP_OK"
    and "n < fuel" "\<forall>j<n. sdmmc_card_init_ret e j \<noteq> ESP_OK" "sdmmc_card_init_ret e n = ESP_OK"
    and "tinyusb_msc_storage_init_sdmmc_ret e = ESP_OK"
    and "tinyusb_msc_storage_mount_ret e = ESP_OK"
    and "tinyusb_driver_install_ret e \<noteq> ESP_OK"
  shows "app_main fuel e =
         (Some (Aborted (tinyusb_driver_install_ret e)),
          final e (upto_install e n @
            [Esp_error_check_failed (tinyusb_driver_install_ret e)]))"
  by (simp add: app_main_card_found [OF assms(1,2,3,4)] storage_init_final assms(5)
        u_mount_final assms(6) show_status_final usb_install_final assms(7))

lemma app_main_restarted:
  assumes "spi_bus_initialize_ret e = ESP_OK"
    and "n < fuel" "\<forall>j<n. sdmmc_card_init_ret e j \<noteq> ESP_OK" "sdmmc_card_init_ret e n = ESP_OK"
    and "tinyusb_msc_storage_init_sdmmc_ret e = ESP_OK"
    and "tinyusb_msc_storage_mount_ret e = ESP_OK"
    and "tinyusb_driver_install_ret e = ESP_OK"
    and "m < fuel" "\<forall>j<m. \<not> BtnA_wasClicked_ret e j" "BtnA_wasClicked_ret e m"
  shows "app_main fuel e =
         (Some Restarted,
          final e (upto_install e n @ [ESP_LOGI ''USB MSC initialization DONE'' []] @
            concat (replicate m idle_round) @ [M5_update, BtnA_wasClicked, Esp_restart]))"
  by (simp add: app_main_card_found [OF assms(1,2,3,4)] storage_init_final assms(5)
        u_mount_final assms(6) show_status_final usb_install_final assms(7)
        idle_restarted [OF assms(8,9,10)] final_emits)

lemma app_main_idling:
  assumes "spi_bus_initialize_ret e = ESP_OK"
    and "n < fuel" "\<forall>j<n. sdmmc_card_init_ret e j \<noteq> ESP_OK" "sdmmc_card_init_ret e n = ESP_OK"
    and "tinyusb_msc_storage_init_sdmmc_ret e = ESP_OK"
    and "tinyusb_msc_storage_mount_ret e = ESP_OK"
    and "tinyusb_driver_install_ret e = ESP_OK"
    and "\<forall>j<fuel. \<not> BtnA_wasClicked_ret e j"
  shows "app_main fuel e =
         (Some Spinning,
          final e (upto_install e n @ [ESP_LOGI ''USB MSC initialization DONE'' []] @
            concat (replicate fuel idle_round)))"
  by (simp add: app_main_card_found [OF assms(1,2,3,4)] storage_init_final assms(5)
        u_mount_final assms(6) show_status_final usb_install_final assms(7)
        idle_spinning [OF assms(8)] final_emits)

lemma app_main_cases
  [case_names bus_failed card_absent storage_failed mount_failed install_failed restarted idling]:
  assumes
    "spi_bus_initialize_ret e \<noteq> ESP_OK \<Longrightarrow>
       app_main fuel e =
         (Some Returned, final e (before_bus e @ [ESP_LOGE ''Failed to initialize bus.'' []])) \<Longrightarrow> P"
    "spi_bus_initialize_ret e = ESP_OK \<Longrightarrow>
       \<forall>j<fuel. sdmmc_card_init_ret e j \<noteq> ESP_OK \<Longrightarrow>
       app_main fuel e = (Some Spinning, final e (upto_card e fuel)) \<Longrightarrow> P"
    "\<And>n. spi_bus_initialize_ret e = ESP_OK \<Longrightarrow>
       n < fuel \<Longrightarrow> \<forall>j<n. sdmmc_card_init_ret e j \<noteq> ESP_OK \<Longrightarrow>
       sdmmc_card_init_ret e n = ESP_OK \<Longrightarrow>
       tinyusb_msc_storage_init_sdmmc_ret e \<noteq> ESP_OK \<Longrightarrow>
       app_main fuel e =
         (Some (Aborted (tinyusb_msc_storage_init_sdmmc_ret e)),
          final e (upto_storage e n @
            [Esp_error_check_failed (tinyusb_msc_storage_init_sdmmc_ret e)])) \<Longrightarrow> P"
    "\<And>n. spi_bus_initialize_ret e = ESP_OK \<Longrightarrow>
       n < fuel \<Longrightarrow> \<forall>j<n. sdmmc_card_init_ret e j \<noteq> ESP_OK \<Longrightarrow>
       sdmmc_card_init_ret e n = ESP_OK \<Longrightarrow>
       tinyusb_msc_storage_init_sdmmc_ret e = ESP_OK \<Longrightarrow>
       tinyusb_msc_storage_mount_ret e \<noteq> ESP_OK \<Longrightarrow>
       app_main fuel e =
         (Some (Aborted (tinyusb_msc_storage_mount_ret e)),
          final e (upto_mount e n @
            [Esp_error_check_failed (tinyusb_msc_storage_mount_ret e)])) \<Longrightarrow> P"
    "\<And>n. spi_bus_initialize_ret e = ESP_OK \<Longrightarrow>
       n < fuel \<Longrightarrow> \<forall>j<n. sdmmc_card_init_ret e j \<noteq> ESP_OK \<Longrightarrow>
       sdmmc_card_init_ret e n = ESP_OK \<Longrightarrow>
       tinyusb_msc_storage_init_sdmmc_ret e = ESP_OK \<Longrightarrow>
       tinyusb_msc_storage_mount_ret e = ESP_OK \<Longrightarrow>
       tinyusb_driver_install_ret e \<noteq> ESP_OK \<Longrightarrow>
       app_main fuel e =
         (Some (Aborted (tinyusb_driver_install_ret e)),
          final e (upto_install e n @
            [Esp_error_check_failed (tinyusb_driver_install_ret e)])) \<Longrightarrow> P"
    "\<And>n m. spi_bus_initialize_ret e = ESP_OK \<Longrightarrow>
       n < fuel \<Longrightarrow> \<forall>j<n. sdmmc_card_init_ret e j \<noteq> ESP_OK \<Longrightarrow>
       sdmmc_card_init_ret e n = ESP_OK \<Longrightarrow>
       tinyusb_msc_storage_init_sdmmc_ret e = ESP_OK \<Longrightarrow>
       tinyusb_msc_storage_mount_ret e = ESP_OK \<Longrightarrow>
       tinyusb_driver_install_ret e = ESP_OK \<Longrightarrow>
       m < fuel \<Longrightarrow> \<forall>j<m. \<not> BtnA_wasClicked_ret e j \<Longrightarrow> BtnA_wasClicked_ret e m \<Longrightarrow>
       app_main fuel e =
         (Some Restarted,
          final e (upto_install e n @ [ESP_LOGI ''USB MSC initialization DONE'' []] @
            concat (replicate m idle_round) @ [M5_update, BtnA_wasClicked, Esp_restart])) \<Longrightarrow> P"
    "\<And>n. spi_bus_initialize_ret e = ESP_OK \<Longrightarrow>
       n < fuel \<Longrightarrow> \<forall>j<n. sdmmc_card_init_ret e j \<noteq> ESP_OK \<Longrightarrow>
       sdmmc_card_init_ret e n = ESP_OK \<Longrightarrow>
       tinyusb_msc_storage_init_sdmmc_ret e = ESP_OK \<Longrightarrow>
       tinyusb_msc_storage_mount_ret e = ESP_OK \<Longrightarrow>
       tinyusb_driver_install_ret e = ESP_OK \<Longrightarrow>
       \<forall>j<fuel. \<not> BtnA_wasClicked_ret e j \<Longrightarrow>
       app_main fuel e =
         (Some Spinning,
          final e (upto_install e n @ [ESP_LOGI ''USB MSC initialization DONE'' []] @
            concat (replicate fuel idle_round))) \<Longrightarrow> P"
  shows P
proof (cases "spi_bus_initialize_ret e = ESP_OK")
  case False
  then show P by (intro assms(1) app_main_bus_failed)
next
  case bus: True
  show P
  proof (cases rule: first_cases [of fuel "\<lambda>j. sdmmc_card_init_ret e j = ESP_OK"])
    case none
    then show P by (intro assms(2) bus app_main_card_absent)
  next
    case (first n)
    note card = bus first
    show P
    proof (cases "tinyusb_msc_storage_init_sdmmc_ret e = ESP_OK")
      case False
      with card show P by (intro assms(3) [of n] app_main_storage_failed)
    next
      case storage: True
      show P
      proof (cases "tinyusb_msc_storage_mount_ret e = ESP_OK")
        case False
        with card storage show P by (intro assms(4) [of n] app_main_mount_failed)
      next
        case mount: True
        show P
        proof (cases "tinyusb_driver_install_ret e = ESP_OK")
          case False
          with card storage mount show P by (intro assms(5) [of n] app_main_install_failed)
        next
          case install: True
          show P
          proof (cases rule: first_cases [of fuel "BtnA_wasClicked_ret e"])
            case (first m)
            with card storage mount install show P
              by (intro assms(6) [of n m] app_main_restarted)
          next
            case none
            with card storage mount install show P
              by (intro assms(7) [of n] app_main_idling)
          qed
        qed
      qed
    qed
  qed
qed

lemma flow_malloc:
  "app_main_flow fuel (e\<lparr>malloc_ret := c\<rparr>) = app_main_flow fuel e"
proof (cases rule: app_main_cases [of e fuel])
  case bus_failed
  then show ?thesis
    using app_main_bus_failed [of "e\<lparr>malloc_ret := c\<rparr>" fuel] by simp
next
  case card_absent
  then show ?thesis
    using app_main_card_absent [of "e\<lparr>malloc_ret := c\<rparr>" fuel] by simp
next
  case (storage_failed n)
  then show ?thesis
    using app_main_storage_failed [of "e\<lparr>malloc_ret := c\<rparr>" n fuel] by simp
next
  case (mount_failed n)
  then show ?thesis
    using app_main_mount_failed [of "e\<lparr>malloc_ret := c\<rparr>" n fuel] by simp
next
  case (install_failed n)
  then show ?thesis
    using app_main_install_failed [of "e\<lparr>malloc_ret := c\<rparr>" n fuel] by simp
next
  case (restarted n m)
  then show ?thesis
    using app_main_restarted [of "e\<lparr>malloc_ret := c\<rparr>" n fuel m] by simp
next
  case (idling n)
  then show ?thesis
    using app_main_idling [of "e\<lparr>malloc_ret := c\<rparr>" n fuel] by simp
qed

subsection \<open>What a statement leaves as it is\<close>

lemma card_init_appends: "\<exists>t. snd (card_init fuel e s) = emits t s"
proof (cases rule: first_cases [of fuel "\<lambda>j. sdmmc_card_init_ret e j = ESP_OK"])
  case (first n)
  then show ?thesis by (auto simp add: card_init_found)
next
  case none
  then show ?thesis by (auto simp add: card_init_spinning)
qed

lemma idle_appends: "\<exists>t. snd (idle fuel e s) = emits t s"
proof (cases rule: first_cases [of fuel "BtnA_wasClicked_ret e"])
  case (first m)
  then show ?thesis by (auto simp add: idle_restarted)
next
  case none
  then show ?thesis by (auto simp add: idle_spinning)
qed

lemma u_mount_appends: "\<exists>t. snd (u_mount e s) = emits t s"
  by (auto simp add: u_mount_def ESP_ERROR_CHECK_def readdir_loop_emits emit_emits emits_emits
        Let_def split: option.splits)

lemma straight_line_appends:
  "\<exists>t. snd (display_init s) = emits t s"
  "\<exists>t. snd (bus_init e s) = emits t s"
  "\<exists>t. snd (slot_init e s) = emits t s"
  "\<exists>t. snd (storage_init e s) = emits t s"
  "\<exists>t. snd (show_status e s) = emits t s"
  "\<exists>t. snd (usb_install e s) = emits t s"
  by (auto simp add: display_init_def bus_init_def slot_init_def storage_init_def
        show_status_def usb_install_def ESP_ERROR_CHECK_def emit_emits emits_emits Let_def
        split: option.splits prod.splits)

lemma card_alloc_frame:
  "card (snd (card_alloc e s)) = malloc_ret e"
  "dev_desc (snd (card_alloc e s)) = dev_desc s"
  "cfg_desc (snd (card_alloc e s)) = cfg_desc s"
  "str_desc (snd (card_alloc e s)) = str_desc s"
  by (simp_all add: card_alloc_def emit_def Let_def)

lemma after_alloc_appends:
  assumes "c \<in> set (drop 2 (startup fuel e) @ [idle fuel e])"
  shows "\<exists>t. snd (c s) = emits t s"
proof -
  from assms have "c = bus_init e \<or> c = slot_init e \<or> c = card_init fuel e \<or>
      c = storage_init e \<or> c = u_mount e \<or> c = show_status e \<or> c = usb_install e \<or>
      c = idle fuel e"
    by (auto simp add: startup_def)
  then show ?thesis
    using straight_line_appends(2-6) [of e s] card_init_appends [of fuel e s]
      u_mount_appends [of e s] idle_appends [of fuel e s]
    by blast
qed

lemma descriptors_kept:
  assumes "c \<in> set (startup fuel e @ [idle fuel e])"
  shows "dev_desc (snd (c s)) = dev_desc s \<and> cfg_desc (snd (c s)) = cfg_desc s \<and>
         str_desc (snd (c s)) = str_desc s"
proof -
  from assms have "c = display_init \<or> c = card_alloc e \<or>
      c \<in> set (drop 2 (startup fuel e) @ [idle fuel e])"
    by (auto simp add: startup_def)
  then show ?thesis
  proof (elim disjE)
    assume "c = display_init"
    with straight_line_appends(1) [of s] show ?thesis by auto
  next
    assume "c = card_alloc e"
    with card_alloc_frame(2-4) [of e s] show ?thesis by simp
  next
    assume "c \<in> set (drop 2 (startup fuel e) @ [idle fuel e])"
    from after_alloc_appends [OF this, of s] show ?thesis by auto
  qed
qed


subsection \<open>What a statement reads and writes\<close>

lemma emits_tables:
  "emits t (s\<lparr>dev_desc := d, cfg_desc := cd, str_desc := sd\<rparr>) =
     (emits t s)\<lparr>dev_desc := d, cfg_desc := cd, str_desc := sd\<rparr>"
  by (simp add: emits_def)


lemma card_alloc_effect:
  "card_alloc e s =
     (None, (emits ([ESP_LOGI ''Initializing storage...'' [], Malloc (sizeof_sdmmc_card_t e)] @
                    (if malloc_ret e = None
                     then [ESP_LOGD ''could not locate new sdmmc_card_t'' []] else [])) s)
              \<lparr>card := malloc_ret e\<rparr>)"
  by (simp add: card_alloc_def emit_def emits_def Let_def)

lemma usb_install_effect:
  "usb_install e s =
     (if tinyusb_driver_install_ret e \<noteq> ESP_OK
      then (Some (Aborted (tinyusb_driver_install_ret e)),
            emits [ESP_LOGI ''USB MSC initialization'' [],
                   Tinyusb_driver_install
                     \<lparr>device_descriptor = dev_desc s,
                      string_descriptor = str_desc s,
                      string_descriptor_count = length (str_desc s),
                      external_phy = False,
                      configuration_descriptor = cfg_desc s\<rparr>,
                   Esp_error_check_failed (tinyusb_driver_install_ret e)] s)
      else (None,
            emits [ESP_LOGI ''USB MSC initialization'' [],
                   Tinyusb_driver_install
                     \<lparr>device_descriptor = dev_desc s,
                      string_descriptor = str_desc s,
                      string_descriptor_count = length (str_desc s),
                      external_phy = False,
                      configuration_descriptor = cfg_desc s\<rparr>,
                   ESP_LOGI ''USB MSC initialization DONE'' []] s))"
  by (simp add: usb_install_def ESP_ERROR_CHECK_def emit_def emits_def Let_def)

text \<open>What a statement other than the allocation and the USB installation does depends
  on the state through \<open>card\<close> alone, and it only appends to the trace.\<close>

lemma straight_line_card_only:
  assumes "card s1 = card s2"
  shows "fst (display_init s1) = fst (display_init s2) \<and>
         (\<exists>t. snd (display_init s1) = emits t s1 \<and> snd (display_init s2) = emits t s2)"
    and "fst (bus_init e s1) = fst (bus_init e s2) \<and>
         (\<exists>t. snd (bus_init e s1) = emits t s1 \<and> snd (bus_init e s2) = emits t s2)"
    and "fst (slot_init e s1) = fst (slot_init e s2) \<and>
         (\<exists>t. snd (slot_init e s1) = emits t s1 \<and> snd (slot_init e s2) = emits t s2)"
    and "fst (storage_init e s1) = fst (storage_init e s2) \<and>
         (\<exists>t. snd (storage_init e s1) = emits t s1 \<and> snd (storage_init e s2) = emits t s2)"
    and "fst (show_status e s1) = fst (show_status e s2) \<and>
         (\<exists>t. snd (show_status e s1) = emits t s1 \<and> snd (show_status e s2) = emits t s2)"
    and "fst (u_mount e s1) = fst (u_mount e s2) \<and>
         (\<exists>t. snd (u_mount e s1) = emits t s1 \<and> snd (u_mount e s2) = emits t s2)"
  using assms
  by (auto simp add: display_init_def bus_init_def slot_init_def storage_init_def
        show_status_def u_mount_def ESP_ERROR_CHECK_def readdir_loop_emits emit_emits
        emits_emits Let_def split: option.splits prod.splits)

lemma card_init_card_only:
  assumes "card s1 = card s2"
  shows "fst (card_init fuel e s1) = fst (card_init fuel e s2) \<and>
         (\<exists>t. snd (card_init fuel e s1) = emits t s1 \<and> snd (card_init fuel e s2) = emits t s2)"
proof (cases rule: first_cases [of fuel "\<lambda>j. sdmmc_card_init_ret e j = ESP_OK"])
  case (first n)
  then show ?thesis using assms by (auto simp add: card_init_found)
next
  case none
  then show ?thesis using assms by (auto simp add: card_init_spinning)
qed

lemma idle_card_only:
  "fst (idle fuel e s1) = fst (idle fuel e s2) \<and>
   (\<exists>t. snd (idle fuel e s1) = emits t s1 \<and> snd (idle fuel e s2) = emits t s2)"
proof (cases rule: first_cases [of fuel "BtnA_wasClicked_ret e"])
  case (first m)
  then show ?thesis by (auto simp add: idle_restarted)
next
  case none
  then show ?thesis by (auto simp add: idle_spinning)
qed

lemma card_only:
  assumes "c \<in> set (display_init # drop 2 (butlast (startup fuel e)) @ [idle fuel e])"
    and "card s1 = card s2"
  shows "fst (c s1) = fst (c s2) \<and> (\<exists>t. snd (c s1) = emits t s1 \<and> snd (c s2) = emits t s2)"
proof -
  from assms(1) have "c = display_init \<or> c = bus_init e \<or> c = slot_init e \<or>
      c = card_init fuel e \<or> c = storage_init e \<or> c = u_mount e \<or> c = show_status e \<or>
      c = idle fuel e"
    by (auto simp add: startup_def)
  then show ?thesis
    using straight_line_card_only [OF assms(2)] card_init_card_only [OF assms(2), of fuel e]
      idle_card_only [of fuel e s1 s2]
    by blast
qed

lemma tables_not_read:
  assumes "c \<in> set (butlast (startup fuel e) @ [idle fuel e])"
  shows "c (s\<lparr>dev_desc := d, cfg_desc := cd, str_desc := sd\<rparr>) =
           (fst (c s), (snd (c s))\<lparr>dev_desc := d, cfg_desc := cd, str_desc := sd\<rparr>)"
proof -
  from assms have "c = card_alloc e \<or>
      c \<in> set (display_init # drop 2 (butlast (startup fuel e)) @ [idle fuel e])"
    by (auto simp add: startup_def)
  then show ?thesis
  proof
    assume "c = card_alloc e"
    then show ?thesis by (simp add: card_alloc_effect emits_def)
  next
    assume c: "c \<in> set (display_init # drop 2 (butlast (startup fuel e)) @ [idle fuel e])"
    have "card (s\<lparr>dev_desc := d, cfg_desc := cd, str_desc := sd\<rparr>) = card s"
      by simp
    from card_only [OF c this] obtain t
      where "fst (c (s\<lparr>dev_desc := d, cfg_desc := cd, str_desc := sd\<rparr>)) = fst (c s)"
        and "snd (c (s\<lparr>dev_desc := d, cfg_desc := cd, str_desc := sd\<rparr>)) =
               emits t (s\<lparr>dev_desc := d, cfg_desc := cd, str_desc := sd\<rparr>)"
        and "snd (c s) = emits t s"
      by blast
    then show ?thesis by (simp add: emits_tables prod_eq_iff)
  qed
qed




subsection \<open>Events outside a segment\<close>



lemma filter_reads_listing: "filter reads_descriptors (listing e) = []"
  by (rule filter_listing) simp_all

lemma listing_idle:
  "M5_update \<notin> set (listing e)" "BtnA_wasClicked \<notin> set (listing e)"
  "Esp_restart \<notin> set (listing e)"
  using listing_set [of _ e] by blast+


subsection \<open>Steps of a trace\<close>

lemma steps_Nil [simp]: "steps [] = []"
  by (simp add: steps_def map_filter_simps)

lemma steps_Cons [simp]:
  "steps (ev # t) = (case step_of ev of None \<Rightarrow> steps t | Some k \<Rightarrow> k # steps t)"
  by (simp add: steps_def map_filter_simps split: option.splits)

lemma steps_append [simp]: "steps (t @ u) = steps t @ steps u"
  by (induction t) (simp_all split: option.splits)

lemma steps_listing [simp]: "steps (listing e) = []"
proof -
  have "filter (\<lambda>ev. step_of ev \<noteq> None) (listing e) = []"
    by (rule filter_listing) simp_all
  then show ?thesis by (simp add: steps_def map_filter_def)
qed

lemma steps_retry [simp]: "steps (concat (replicate n (retry_round e c))) = replicate n 2"
  by (induction n) simp_all

lemma steps_idle [simp]: "steps (concat (replicate m idle_round)) = replicate (2 * m) 6"
  by (induction m) simp_all

subsection \<open>Retry rounds inside a trace\<close>

lemma concat_replicate_split:
  "n \<le> m \<Longrightarrow> concat (replicate m xs) = concat (replicate n xs) @ concat (replicate (m - n) xs)"
  by (metis concat_append le_add_diff_inverse replicate_add)

lemma retries_within:
  assumes "n \<le> n'"
    and "t = upto_card e n' @ rest"
  shows "\<exists>pre post. t = pre @ concat (replicate n (retry_round e (malloc_ret e))) @ post \<and>
           (\<forall>h c. Sdmmc_card_init h c \<notin> set pre)"
proof -
  have "t = (before_bus e @
     [Sdspi_host_init_device
        ((SDSPI_DEVICE_CONFIG_DEFAULT e)\<lparr>gpio_cs := PIN_NUM_CS,
                                        host_id := slot (SDSPI_HOST_DEFAULT e)\<rparr>)]) @
     concat (replicate n (retry_round e (malloc_ret e))) @
     (concat (replicate (n' - n) (retry_round e (malloc_ret e))) @ rest)"
    unfolding assms(2) concat_replicate_split [OF assms(1), of "retry_round e (malloc_ret e)"]
    by simp
  moreover have "\<forall>h c. Sdmmc_card_init h c \<notin> set (before_bus e @
     [Sdspi_host_init_device
        ((SDSPI_DEVICE_CONFIG_DEFAULT e)\<lparr>gpio_cs := PIN_NUM_CS,
                                        host_id := slot (SDSPI_HOST_DEFAULT e)\<rparr>)])"
    by simp
  ultimately show ?thesis by blast
qed

subsection \<open>A sample environment\<close>

lemma sample_env_sel [simp]:
  "malloc_ret sample_env = Some 4096"
  "spi_bus_initialize_ret sample_env = ESP_OK"
  "sdmmc_card_init_ret sample_env = (\<lambda>k. if k < 2 then 0x107 else 0)"
  "tinyusb_msc_storage_init_sdmmc_ret sample_env = ESP_OK"
  "tinyusb_msc_storage_mount_ret sample_env = ESP_OK"
  "tinyusb_driver_install_ret sample_env = ESP_OK"
  "BtnA_wasClicked_ret sample_env = (\<lambda>k. k = 3)"
  "opendir_ret sample_env = Some [''a.txt'', ''b'']"
  "SDSPI_HOST_DEFAULT sample_env = \<lparr>slot = 1\<rparr>"
  "sizeof_sdmmc_card_t sample_env = 128"
  "SDSPI_DEFAULT_DMA sample_env = 3"
  by (simp_all add: sample_env_def ESP_OK_def)

lemma sample_run:
  "app_main 5 sample_env =
     (Some Restarted,
      final sample_env (upto_install sample_env 2 @ [ESP_LOGI ''USB MSC initialization DONE'' []] @
        concat (replicate 3 idle_round) @ [M5_update, BtnA_wasClicked, Esp_restart]))"
  by (rule app_main_restarted) (simp_all add: ESP_OK_def)

lemma sample_listing:
  "listing (sample_env\<lparr>sdspi_host_init_device_ret := rc\<rparr>) = listing sample_env"
  by (simp add: listing_def)

lemma sample_boot:
  "boot (sample_env\<lparr>sdspi_host_init_device_ret := rc\<rparr>) = boot sample_env"
  by (simp add: boot_def descriptor_config_def desc_configuration_def TUSB_DESC_TOTAL_LEN_def)

section \<open>The claims\<close>

text \<open>
  C1. The card initialisation loop makes attempt after attempt, each failed one followed
  by the error log and a delay of 1000 ms, and is left exactly at the first attempt that
  returns \<open>ESP_OK\<close>; with no such attempt within the fuel, whatever the fuel, it is
  still in the loop. A run of \<open>app_main\<close> that gets to the USB storage initialisation
  or to the mount has made a successful attempt before, and no attempt after it.
\<close>

theorem card_init_retried_until_ok:
  "(\<exists>n\<le>fuel. (\<forall>j<n. sdmmc_card_init_ret e (k + j) \<noteq> ESP_OK) \<and>
      (if n < fuel
       then sdmmc_card_init_ret e (k + n) = ESP_OK \<and>
            card_init_loop fuel e k s =
              (True, emits (concat (replicate n (retry_round e (card s))) @
                            [Sdmmc_card_init (SDSPI_HOST_DEFAULT e) (card s)]) s)
       else card_init_loop fuel e k s =
              (False, emits (concat (replicate n (retry_round e (card s)))) s))) \<and>
   (Tinyusb_msc_storage_init_sdmmc c \<in> set (app_main_trace fuel e) \<or>
    Tinyusb_msc_storage_mount p \<in> set (app_main_trace fuel e) \<longrightarrow>
      (\<exists>n<fuel. (\<forall>j<n. sdmmc_card_init_ret e j \<noteq> ESP_OK) \<and>
         sdmmc_card_init_ret e n = ESP_OK \<and>
         (\<exists>pre post. app_main_trace fuel e =
            pre @ concat (replicate n (retry_round e (malloc_ret e))) @
            [Sdmmc_card_init (SDSPI_HOST_DEFAULT e) (malloc_ret e),
             ESP_LOGI ''Success initialize sdcard.'' []] @ post \<and>
            (\<forall>h c'. Sdmmc_card_init h c' \<notin> set pre \<union> set post) \<and>
            (\<forall>c'. Tinyusb_msc_storage_init_sdmmc c' \<notin> set pre) \<and>
            (\<forall>p'. Tinyusb_msc_storage_mount p' \<notin> set pre))))"
proof (intro conjI impI)
  show "\<exists>n\<le>fuel. (\<forall>j<n. sdmmc_card_init_ret e (k + j) \<noteq> ESP_OK) \<and>
      (if n < fuel
       then sdmmc_card_init_ret e (k + n) = ESP_OK \<and>
            card_init_loop fuel e k s =
              (True, emits (concat (replicate n (retry_round e (card s))) @
                            [Sdmmc_card_init (SDSPI_HOST_DEFAULT e) (card s)]) s)
       else card_init_loop fuel e k s =
              (False, emits (concat (replicate n (retry_round e (card s)))) s))"
  proof (cases rule: first_cases [of fuel "\<lambda>j. sdmmc_card_init_ret e (k + j) = ESP_OK"])
    case (first n)
    then show ?thesis
      using card_init_loop_found [of n fuel e k s] by (intro exI [of _ n]) simp
  next
    case none
    then show ?thesis
      using card_init_loop_spinning [of fuel e k s] by (intro exI [of _ fuel]) simp
  qed
next
  let ?past = "\<lambda>n. \<exists>pre post. app_main_trace fuel e =
            pre @ concat (replicate n (retry_round e (malloc_ret e))) @
            [Sdmmc_card_init (SDSPI_HOST_DEFAULT e) (malloc_ret e),
             ESP_LOGI ''Success initialize sdcard.'' []] @ post \<and>
            (\<forall>h c'. Sdmmc_card_init h c' \<notin> set pre \<union> set post) \<and>
            (\<forall>c'. Tinyusb_msc_storage_init_sdmmc c' \<notin> set pre) \<and>
            (\<forall>p'. Tinyusb_msc_storage_mount p' \<notin> set pre)"
  assume reached: "Tinyusb_msc_storage_init_sdmmc c \<in> set (app_main_trace fuel e) \<or>
    Tinyusb_msc_storage_mount p \<in> set (app_main_trace fuel e)"
  have pre: "\<And>pre. pre = before_bus e @
     [Sdspi_host_init_device
        ((SDSPI_DEVICE_CONFIG_DEFAULT e)\<lparr>gpio_cs := PIN_NUM_CS,
                                        host_id := slot (SDSPI_HOST_DEFAULT e)\<rparr>)] \<Longrightarrow>
     (\<forall>h c'. Sdmmc_card_init h c' \<notin> set pre) \<and>
     (\<forall>c'. Tinyusb_msc_storage_init_sdmmc c' \<notin> set pre) \<and>
     (\<forall>p'. Tinyusb_msc_storage_mount p' \<notin> set pre)"
    by simp
  have listing: "\<forall>h c'. Sdmmc_card_init h c' \<notin> set (listing e)"
    using listing_set [of _ e] by blast
  show "\<exists>n<fuel. (\<forall>j<n. sdmmc_card_init_ret e j \<noteq> ESP_OK) \<and>
         sdmmc_card_init_ret e n = ESP_OK \<and> ?past n"
  proof (cases rule: app_main_cases [of e fuel])
    case bus_failed
    with reached show ?thesis by (simp split: if_splits)
  next
    case card_absent
    with reached show ?thesis by (simp split: if_splits)
  next
    case (storage_failed n)
    have "?past n"
      apply (rule exI [of _ "before_bus e @
     [Sdspi_host_init_device
        ((SDSPI_DEVICE_CONFIG_DEFAULT e)\<lparr>gpio_cs := PIN_NUM_CS,
                                        host_id := slot (SDSPI_HOST_DEFAULT e)\<rparr>)]"])
      apply (rule exI [of _ "[Display_pushImage 0 0 128 128 image_data_background_2,
      Sdmmc_card_print_info (malloc_ret e),
      Tinyusb_msc_storage_init_sdmmc (malloc_ret e),
      Esp_error_check_failed (tinyusb_msc_storage_init_sdmmc_ret e)]"])
      apply (simp add: storage_failed(6))
      done
    with storage_failed(2,3,4) show ?thesis by blast
  next
    case (mount_failed n)
    have "?past n"
      apply (rule exI [of _ "before_bus e @
     [Sdspi_host_init_device
        ((SDSPI_DEVICE_CONFIG_DEFAULT e)\<lparr>gpio_cs := PIN_NUM_CS,
                                        host_id := slot (SDSPI_HOST_DEFAULT e)\<rparr>)]"])
      apply (rule exI [of _ "[Display_pushImage 0 0 128 128 image_data_background_2,
      Sdmmc_card_print_info (malloc_ret e),
      Tinyusb_msc_storage_init_sdmmc (malloc_ret e),
      ESP_LOGI ''Mount storage...'' [],
      Tinyusb_msc_storage_mount BASE_PATH,
      Esp_error_check_failed (tinyusb_msc_storage_mount_ret e)]"])
      apply (simp add: mount_failed(7))
      done
    with mount_failed(2,3,4) show ?thesis by blast
  next
    case (install_failed n)
    have "\<exists>post. app_main_trace fuel e = upto_card e n @
            [Sdmmc_card_init (SDSPI_HOST_DEFAULT e) (malloc_ret e),
             ESP_LOGI ''Success initialize sdcard.'' []] @ post \<and>
             (\<forall>h c'. Sdmmc_card_init h c' \<notin> set post)"
      using listing by (simp add: install_failed(8))
    then have "?past n"
      using pre [OF refl] by (metis (no_types, lifting) Un_iff append.assoc)
    with install_failed(2,3,4) show ?thesis by blast
  next
    case (restarted n m)
    have "\<exists>post. app_main_trace fuel e = upto_card e n @
            [Sdmmc_card_init (SDSPI_HOST_DEFAULT e) (malloc_ret e),
             ESP_LOGI ''Success initialize sdcard.'' []] @ post \<and>
             (\<forall>h c'. Sdmmc_card_init h c' \<notin> set post)"
      using listing by (simp add: restarted(11))
    then have "?past n"
      using pre [OF refl] by (metis (no_types, lifting) Un_iff append.assoc)
    with restarted(2,3,4) show ?thesis by blast
  next
    case (idling n)
    have "\<exists>post. app_main_trace fuel e = upto_card e n @
            [Sdmmc_card_init (SDSPI_HOST_DEFAULT e) (malloc_ret e),
             ESP_LOGI ''Success initialize sdcard.'' []] @ post \<and>
             (\<forall>h c'. Sdmmc_card_init h c' \<notin> set post)"
      using listing by (simp add: idling(9))
    then have "?past n"
      using pre [OF refl] by (metis (no_types, lifting) Un_iff append.assoc)
    with idling(2,3,4) show ?thesis by blast
  qed
qed

theorem card_init_retried_until_ok_witness:
  "Tinyusb_msc_storage_init_sdmmc (Some 4096) \<in> set (app_main_trace 5 sample_env) \<and>
   (\<exists>n<5. (\<forall>j<n. sdmmc_card_init_ret sample_env j \<noteq> ESP_OK) \<and>
      sdmmc_card_init_ret sample_env n = ESP_OK \<and>
      (\<exists>pre post. app_main_trace 5 sample_env =
         pre @ concat (replicate n (retry_round sample_env (malloc_ret sample_env))) @
         [Sdmmc_card_init (SDSPI_HOST_DEFAULT sample_env) (malloc_ret sample_env),
          ESP_LOGI ''Success initialize sdcard.'' []] @ post \<and>
         (\<forall>h c'. Sdmmc_card_init h c' \<notin> set pre \<union> set post) \<and>
         (\<forall>c'. Tinyusb_msc_storage_init_sdmmc c' \<notin> set pre) \<and>
         (\<forall>p'. Tinyusb_msc_storage_mount p' \<notin> set pre)))"
proof -
  have reached: "Tinyusb_msc_storage_init_sdmmc (Some 4096) \<in> set (app_main_trace 5 sample_env)"
    by (simp add: sample_run)
  with card_init_retried_until_ok [of 5 sample_env 0 "boot sample_env" "Some 4096" BASE_PATH]
  show ?thesis by blast
qed

text \<open>
  C2, as amended. During startup the return codes of \<open>spi_bus_initialize\<close>,
  \<open>sdmmc_card_init\<close>, \<open>tinyusb_msc_storage_init_sdmmc\<close>, \<open>tinyusb_msc_storage_mount\<close>
  and \<open>tinyusb_driver_install\<close> are checked, and a failure is handled in one of three
  ways: a failing \<open>spi_bus_initialize\<close> is logged and \<open>app_main\<close> returns; every failed
  \<open>sdmmc_card_init\<close> is followed by the log and the delay of a retry round, and a card
  that never answers keeps the run in the loop; a failure of one of the three calls
  under the fatal check macro is logged and aborts the run with that code.
\<close>

theorem checked_failures_handled:
  "(spi_bus_initialize_ret e \<noteq> ESP_OK \<longrightarrow>
      app_main_flow fuel e = Some Returned \<and>
      last (app_main_trace fuel e) = ESP_LOGE ''Failed to initialize bus.'' []) \<and>
   (spi_bus_initialize_ret e = ESP_OK \<and> n \<le> fuel \<and>
    (\<forall>j<n. sdmmc_card_init_ret e j \<noteq> ESP_OK) \<longrightarrow>
      (\<exists>pre post. app_main_trace fuel e =
         pre @ concat (replicate n (retry_round e (malloc_ret e))) @ post \<and>
         (\<forall>h c. Sdmmc_card_init h c \<notin> set pre))) \<and>
   (spi_bus_initialize_ret e = ESP_OK \<and> (\<forall>j<fuel. sdmmc_card_init_ret e j \<noteq> ESP_OK) \<longrightarrow>
      app_main_flow fuel e = Some Spinning) \<and>
   (spi_bus_initialize_ret e = ESP_OK \<and> (\<exists>j<fuel. sdmmc_card_init_ret e j = ESP_OK) \<and>
    tinyusb_msc_storage_init_sdmmc_ret e \<noteq> ESP_OK \<longrightarrow>
      app_main_flow fuel e = Some (Aborted (tinyusb_msc_storage_init_sdmmc_ret e)) \<and>
      last (app_main_trace fuel e) =
        Esp_error_check_failed (tinyusb_msc_storage_init_sdmmc_ret e)) \<and>
   (spi_bus_initialize_ret e = ESP_OK \<and> (\<exists>j<fuel. sdmmc_card_init_ret e j = ESP_OK) \<and>
    tinyusb_msc_storage_init_sdmmc_ret e = ESP_OK \<and>
    tinyusb_msc_storage_mount_ret e \<noteq> ESP_OK \<longrightarrow>
      app_main_flow fuel e = Some (Aborted (tinyusb_msc_storage_mount_ret e)) \<and>
      last (app_main_trace fuel e) =
        Esp_error_check_failed (tinyusb_msc_storage_mount_ret e)) \<and>
   (spi_bus_initialize_ret e = ESP_OK \<and> (\<exists>j<fuel. sdmmc_card_init_ret e j = ESP_OK) \<and>
    tinyusb_msc_storage_init_sdmmc_ret e = ESP_OK \<and>
    tinyusb_msc_storage_mount_ret e = ESP_OK \<and>
    tinyusb_driver_install_ret e \<noteq> ESP_OK \<longrightarrow>
      app_main_flow fuel e = Some (Aborted (tinyusb_driver_install_ret e)) \<and>
      last (app_main_trace fuel e) =
        Esp_error_check_failed (tinyusb_driver_install_ret e))"
proof -
  let ?retried = "spi_bus_initialize_ret e = ESP_OK \<and> n \<le> fuel \<and>
    (\<forall>j<n. sdmmc_card_init_ret e j \<noteq> ESP_OK) \<longrightarrow>
      (\<exists>pre post. app_main_trace fuel e =
         pre @ concat (replicate n (retry_round e (malloc_ret e))) @ post \<and>
         (\<forall>h c. Sdmmc_card_init h c \<notin> set pre))"
  have found: "?retried"
    if "n' < fuel" "sdmmc_card_init_ret e n' = ESP_OK"
      and "app_main_trace fuel e = upto_card e n' @ rest" for n' rest
  proof (intro impI)
    assume "spi_bus_initialize_ret e = ESP_OK \<and> n \<le> fuel \<and>
      (\<forall>j<n. sdmmc_card_init_ret e j \<noteq> ESP_OK)"
    with that(2) have "n \<le> n'" by (meson not_le)
    then show "\<exists>pre post. app_main_trace fuel e =
         pre @ concat (replicate n (retry_round e (malloc_ret e))) @ post \<and>
         (\<forall>h c. Sdmmc_card_init h c \<notin> set pre)"
      using that(3) by (rule retries_within)
  qed
  show ?thesis
  proof (cases rule: app_main_cases [of e fuel])
    case bus_failed
    then show ?thesis by simp
  next
    case card_absent
    have "?retried"
    proof (intro impI)
      assume "spi_bus_initialize_ret e = ESP_OK \<and> n \<le> fuel \<and>
        (\<forall>j<n. sdmmc_card_init_ret e j \<noteq> ESP_OK)"
      then have "n \<le> fuel" by blast
      moreover have "app_main_trace fuel e = upto_card e fuel @ []"
        by (simp add: card_absent(3))
      ultimately show "\<exists>pre post. app_main_trace fuel e =
         pre @ concat (replicate n (retry_round e (malloc_ret e))) @ post \<and>
         (\<forall>h c. Sdmmc_card_init h c \<notin> set pre)"
        by (rule retries_within)
    qed
    moreover have "app_main_flow fuel e = Some Spinning"
      by (simp add: card_absent(3))
    ultimately show ?thesis using card_absent(1,2) by blast
  next
    case (storage_failed n')
    have "?retried"
      by (rule found [OF storage_failed(2,4)]) (simp add: storage_failed(6))
    moreover have "app_main_flow fuel e = Some (Aborted (tinyusb_msc_storage_init_sdmmc_ret e))"
      "last (app_main_trace fuel e) =
        Esp_error_check_failed (tinyusb_msc_storage_init_sdmmc_ret e)"
      by (simp_all add: storage_failed(6))
    ultimately show ?thesis using storage_failed(1,2,4,5) by blast
  next
    case (mount_failed n')
    have "?retried"
      by (rule found [OF mount_failed(2,4)]) (simp add: mount_failed(7))
    moreover have "app_main_flow fuel e = Some (Aborted (tinyusb_msc_storage_mount_ret e))"
      "last (app_main_trace fuel e) =
        Esp_error_check_failed (tinyusb_msc_storage_mount_ret e)"
      by (simp_all add: mount_failed(7))
    ultimately show ?thesis using mount_failed(1,2,4,5,6) by blast
  next
    case (install_failed n')
    have "?retried"
      by (rule found [OF install_failed(2,4)]) (simp add: install_failed(8))
    moreover have "app_main_flow fuel e = Some (Aborted (tinyusb_driver_install_ret e))"
      "last (app_main_trace fuel e) =
        Esp_error_check_failed (tinyusb_driver_install_ret e)"
      by (simp_all add: install_failed(8))
    ultimately show ?thesis using install_failed(1,2,4,5,6,7) by blast
  next
    case (restarted n' m)
    have "?retried"
      by (rule found [OF restarted(2,4)]) (simp add: restarted(11))
    then show ?thesis using restarted(1,2,4,5,6,7) by blast
  next
    case (idling n')
    have "?retried"
      by (rule found [OF idling(2,4)]) (simp add: idling(9))
    then show ?thesis using idling(1,2,4,5,6,7) by blast
  qed
qed

theorem checked_failures_handled_witness:
  "spi_bus_initialize_ret (sample_env\<lparr>tinyusb_msc_storage_mount_ret := 0x105\<rparr>) = ESP_OK \<and>
   (\<exists>j<5. sdmmc_card_init_ret (sample_env\<lparr>tinyusb_msc_storage_mount_ret := 0x105\<rparr>) j = ESP_OK) \<and>
   tinyusb_msc_storage_init_sdmmc_ret (sample_env\<lparr>tinyusb_msc_storage_mount_ret := 0x105\<rparr>) = ESP_OK \<and>
   tinyusb_msc_storage_mount_ret (sample_env\<lparr>tinyusb_msc_storage_mount_ret := 0x105\<rparr>) \<noteq> ESP_OK \<and>
   app_main_flow 5 (sample_env\<lparr>tinyusb_msc_storage_mount_ret := 0x105\<rparr>) = Some (Aborted 0x105) \<and>
   last (app_main_trace 5 (sample_env\<lparr>tinyusb_msc_storage_mount_ret := 0x105\<rparr>)) =
     Esp_error_check_failed 0x105 \<and>
   (\<exists>pre post. app_main_trace 5 (sample_env\<lparr>tinyusb_msc_storage_mount_ret := 0x105\<rparr>) =
      pre @ concat (replicate 2 (retry_round (sample_env\<lparr>tinyusb_msc_storage_mount_ret := 0x105\<rparr>)
                                  (malloc_ret (sample_env\<lparr>tinyusb_msc_storage_mount_ret := 0x105\<rparr>)))) @
      post \<and>
      (\<forall>h c. Sdmmc_card_init h c \<notin> set pre))"
proof -
  let ?e = "sample_env\<lparr>tinyusb_msc_storage_mount_ret := 0x105\<rparr>"
  have h: "spi_bus_initialize_ret ?e = ESP_OK"
    "\<exists>j<5. sdmmc_card_init_ret ?e j = ESP_OK"
    "tinyusb_msc_storage_init_sdmmc_ret ?e = ESP_OK"
    "tinyusb_msc_storage_mount_ret ?e \<noteq> ESP_OK"
    "(2::nat) \<le> 5" "\<forall>j<2. sdmmc_card_init_ret ?e j \<noteq> ESP_OK"
    by (simp_all add: ESP_OK_def exI [of _ 2])
  have code: "tinyusb_msc_storage_mount_ret ?e = 0x105"
    by simp
  from checked_failures_handled [of ?e 5 2] h
  have "app_main_flow 5 ?e = Some (Aborted (tinyusb_msc_storage_mount_ret ?e))"
    and "last (app_main_trace 5 ?e) = Esp_error_check_failed (tinyusb_msc_storage_mount_ret ?e)"
    and "\<exists>pre post. app_main_trace 5 ?e =
      pre @ concat (replicate 2 (retry_round ?e (malloc_ret ?e))) @ post \<and>
      (\<forall>h c. Sdmmc_card_init h c \<notin> set pre)"
    by blast+
  with h show ?thesis unfolding code by blast
qed

text \<open>
  C2 as stated fails: a failing \<open>spi_bus_initialize\<close> neither aborts nor is retried, the
  run logs and returns; and a failing \<open>sdspi_host_init_device\<close> changes nothing, the run
  is the one of the environment where the call succeeds.
\<close>

theorem failure_handling_counterexample:
  "spi_bus_initialize_ret (sample_env\<lparr>spi_bus_initialize_ret := 0x103\<rparr>) \<noteq> ESP_OK \<and>
   app_main_flow 5 (sample_env\<lparr>spi_bus_initialize_ret := 0x103\<rparr>) = Some Returned \<and>
   last (app_main_trace 5 (sample_env\<lparr>spi_bus_initialize_ret := 0x103\<rparr>)) =
     ESP_LOGE ''Failed to initialize bus.'' [] \<and>
   count_list (app_main_trace 5 (sample_env\<lparr>spi_bus_initialize_ret := 0x103\<rparr>))
     (Spi_bus_initialize 1 bus_cfg 3) = 1 \<and>
   sdspi_host_init_device_ret (sample_env\<lparr>sdspi_host_init_device_ret := 0x103\<rparr>) \<noteq> ESP_OK \<and>
   app_main 5 (sample_env\<lparr>sdspi_host_init_device_ret := 0x103\<rparr>) = app_main 5 sample_env \<and>
   app_main_flow 5 sample_env = Some Restarted"
proof -
  have "spi_bus_initialize_ret (sample_env\<lparr>spi_bus_initialize_ret := 0x103\<rparr>) \<noteq> ESP_OK"
    by (simp add: ESP_OK_def)
  then have bus: "app_main 5 (sample_env\<lparr>spi_bus_initialize_ret := 0x103\<rparr>) =
      (Some Returned,
       final (sample_env\<lparr>spi_bus_initialize_ret := 0x103\<rparr>)
         (before_bus (sample_env\<lparr>spi_bus_initialize_ret := 0x103\<rparr>) @
          [ESP_LOGE ''Failed to initialize bus.'' []]))"
    by (rule app_main_bus_failed)
  have dropped: "app_main 5 (sample_env\<lparr>sdspi_host_init_device_ret := 0x103\<rparr>) =
      (Some Restarted,
       final (sample_env\<lparr>sdspi_host_init_device_ret := 0x103\<rparr>)
         (upto_install (sample_env\<lparr>sdspi_host_init_device_ret := 0x103\<rparr>) 2 @
          [ESP_LOGI ''USB MSC initialization DONE'' []] @
          concat (replicate 3 idle_round) @ [M5_update, BtnA_wasClicked, Esp_restart]))"
    by (rule app_main_restarted) (simp_all add: ESP_OK_def)
  have same: "app_main 5 (sample_env\<lparr>sdspi_host_init_device_ret := 0x103\<rparr>) =
      app_main 5 sample_env"
    unfolding dropped sample_run sample_listing sample_boot
    by (simp add: descriptor_config_def desc_configuration_def TUSB_DESC_TOTAL_LEN_def)
  show ?thesis
    by (simp add: bus same sample_run ESP_OK_def)
qed



text \<open>
  C4, as amended. When every startup call succeeds, the run continues after the message
  that the USB initialisation is done with polling rounds only, each one \<open>M5.update\<close>,
  the check of button A and a delay of 100 ms. The loop does nothing else, except that a
  registered click calls \<open>esp_restart\<close> in place of the delay; without a click the run
  is still in the loop, whatever the fuel.
\<close>

theorem idle_loop_after_startup:
  "spi_bus_initialize_ret e = ESP_OK \<Longrightarrow>
   \<exists>n<fuel. sdmmc_card_init_ret e n = ESP_OK \<Longrightarrow>
   tinyusb_msc_storage_init_sdmmc_ret e = ESP_OK \<Longrightarrow>
   tinyusb_msc_storage_mount_ret e = ESP_OK \<Longrightarrow>
   tinyusb_driver_install_ret e = ESP_OK \<Longrightarrow>
   \<exists>pre m. M5_update \<notin> set pre \<and> BtnA_wasClicked \<notin> set pre \<and> Esp_restart \<notin> set pre \<and>
     m \<le> fuel \<and> (\<forall>j<m. \<not> BtnA_wasClicked_ret e j) \<and>
     (if m < fuel
      then BtnA_wasClicked_ret e m \<and>
           app_main_flow fuel e = Some Restarted \<and>
           app_main_trace fuel e =
             pre @ [ESP_LOGI ''USB MSC initialization DONE'' []] @
             concat (replicate m idle_round) @ [M5_update, BtnA_wasClicked, Esp_restart]
      else app_main_flow fuel e = Some Spinning \<and>
           app_main_trace fuel e =
             pre @ [ESP_LOGI ''USB MSC initialization DONE'' []] @
             concat (replicate fuel idle_round))"
proof -
  assume ok: "spi_bus_initialize_ret e = ESP_OK" "\<exists>n<fuel. sdmmc_card_init_ret e n = ESP_OK"
    "tinyusb_msc_storage_init_sdmmc_ret e = ESP_OK" "tinyusb_msc_storage_mount_ret e = ESP_OK"
    "tinyusb_driver_install_ret e = ESP_OK"
  have pre: "\<And>n. M5_update \<notin> set (upto_install e n) \<and> BtnA_wasClicked \<notin> set (upto_install e n) \<and>
    Esp_restart \<notin> set (upto_install e n)"
    by (simp add: listing_idle)
  show ?thesis
  proof (cases rule: app_main_cases [of e fuel])
    case (restarted n m)
    have "app_main_flow fuel e = Some Restarted"
      "app_main_trace fuel e =
         upto_install e n @ [ESP_LOGI ''USB MSC initialization DONE'' []] @
         concat (replicate m idle_round) @ [M5_update, BtnA_wasClicked, Esp_restart]"
      by (simp_all add: restarted(11))
    with restarted(8,9,10) pre [of n] show ?thesis
      by (intro exI [of _ "upto_install e n"] exI [of _ m]) simp
  next
    case (idling n)
    have "app_main_flow fuel e = Some Spinning"
      "app_main_trace fuel e =
         upto_install e n @ [ESP_LOGI ''USB MSC initialization DONE'' []] @
         concat (replicate fuel idle_round)"
      by (simp_all add: idling(9))
    with idling(8) pre [of n] show ?thesis
      by (intro exI [of _ "upto_install e n"] exI [of _ fuel]) simp
  qed (use ok in blast)+
qed

theorem idle_loop_after_startup_witness:
  "spi_bus_initialize_ret sample_env = ESP_OK \<and>
   (\<exists>n<5. sdmmc_card_init_ret sample_env n = ESP_OK) \<and>
   tinyusb_msc_storage_init_sdmmc_ret sample_env = ESP_OK \<and>
   tinyusb_msc_storage_mount_ret sample_env = ESP_OK \<and>
   tinyusb_driver_install_ret sample_env = ESP_OK \<and>
   (\<exists>pre m. M5_update \<notin> set pre \<and> BtnA_wasClicked \<notin> set pre \<and> Esp_restart \<notin> set pre \<and>
     m \<le> 5 \<and> (\<forall>j<m. \<not> BtnA_wasClicked_ret sample_env j) \<and>
     (if m < 5
      then BtnA_wasClicked_ret sample_env m \<and>
           app_main_flow 5 sample_env = Some Restarted \<and>
           app_main_trace 5 sample_env =
             pre @ [ESP_LOGI ''USB MSC initialization DONE'' []] @
             concat (replicate m idle_round) @ [M5_update, BtnA_wasClicked, Esp_restart]
      else app_main_flow 5 sample_env = Some Spinning \<and>
           app_main_trace 5 sample_env =
             pre @ [ESP_LOGI ''USB MSC initialization DONE'' []] @
             concat (replicate 5 idle_round)))"
proof -
  have h: "spi_bus_initialize_ret sample_env = ESP_OK"
    "\<exists>n<5. sdmmc_card_init_ret sample_env n = ESP_OK"
    "tinyusb_msc_storage_init_sdmmc_ret sample_env = ESP_OK"
    "tinyusb_msc_storage_mount_ret sample_env = ESP_OK"
    "tinyusb_driver_install_ret sample_env = ESP_OK"
    by (simp_all add: ESP_OK_def exI [of _ 2])
  from idle_loop_after_startup [OF h] h show ?thesis by blast
qed

text \<open>
  C4 as stated fails: with a click at the fourth poll the run ends restarted, and its
  last event is \<open>esp_restart\<close>, which is no part of a polling round.
\<close>

theorem polling_not_the_only_work_counterexample:
  "app_main_flow 5 sample_env = Some Restarted \<and>
   last (app_main_trace 5 sample_env) = Esp_restart \<and>
   Esp_restart \<notin> set idle_round"
  by (simp add: sample_run)

text \<open>
  C5. No statement of \<open>app_main\<close> writes a descriptor table, whatever the state it
  starts from, and at the end of every run the three tables hold their declared values.
  They are handed to the USB stack once, by the one call of \<open>tinyusb_driver_install\<close>,
  in every run that gets to that call, and never in a run that ends before it. Nothing
  else reads them: what any statement but the USB installation does is the same
  whatever the tables hold, and the USB installation emits a log, the one call that is
  given the tables, and a second log or the failed check, in which no table occurs.
\<close>

theorem descriptors_read_once_never_written:
  "(\<forall>c\<in>set (startup fuel e @ [idle fuel e]). \<forall>s.
      dev_desc (snd (c s)) = dev_desc s \<and> cfg_desc (snd (c s)) = cfg_desc s \<and>
      str_desc (snd (c s)) = str_desc s) \<and>
   dev_desc (snd (app_main fuel e)) = descriptor_config e \<and>
   cfg_desc (snd (app_main fuel e)) = desc_configuration e \<and>
   str_desc (snd (app_main fuel e)) = string_desc_arr \<and>
   filter reads_descriptors (app_main_trace fuel e) =
     (if spi_bus_initialize_ret e = ESP_OK \<and> (\<exists>n<fuel. sdmmc_card_init_ret e n = ESP_OK) \<and>
         tinyusb_msc_storage_init_sdmmc_ret e = ESP_OK \<and>
         tinyusb_msc_storage_mount_ret e = ESP_OK
      then [Tinyusb_driver_install
              \<lparr>device_descriptor = descriptor_config e,
               string_descriptor = string_desc_arr,
               string_descriptor_count = 5,
               external_phy = False,
               configuration_descriptor = desc_configuration e\<rparr>]
      else []) \<and>
   startup fuel e = butlast (startup fuel e) @ [usb_install e] \<and>
   (\<forall>c\<in>set (butlast (startup fuel e) @ [idle fuel e]). \<forall>s d cd sd.
      c (s\<lparr>dev_desc := d, cfg_desc := cd, str_desc := sd\<rparr>) =
        (fst (c s), (snd (c s))\<lparr>dev_desc := d, cfg_desc := cd, str_desc := sd\<rparr>)) \<and>
   (\<forall>s. usb_install e s =
      (if tinyusb_driver_install_ret e \<noteq> ESP_OK
       then (Some (Aborted (tinyusb_driver_install_ret e)),
             emits [ESP_LOGI ''USB MSC initialization'' [],
                    Tinyusb_driver_install
                      \<lparr>device_descriptor = dev_desc s,
                       string_descriptor = str_desc s,
                       string_descriptor_count = length (str_desc s),
                       external_phy = False,
                       configuration_descriptor = cfg_desc s\<rparr>,
                    Esp_error_check_failed (tinyusb_driver_install_ret e)] s)
       else (None,
             emits [ESP_LOGI ''USB MSC initialization'' [],
                    Tinyusb_driver_install
                      \<lparr>device_descriptor = dev_desc s,
                       string_descriptor = str_desc s,
                       string_descriptor_count = length (str_desc s),
                       external_phy = False,
                       configuration_descriptor = cfg_desc s\<rparr>,
                    ESP_LOGI ''USB MSC initialization DONE'' []] s)))"
proof -
  have written: "\<forall>c\<in>set (startup fuel e @ [idle fuel e]). \<forall>s.
      dev_desc (snd (c s)) = dev_desc s \<and> cfg_desc (snd (c s)) = cfg_desc s \<and>
      str_desc (snd (c s)) = str_desc s"
    using descriptors_kept [of _ fuel e] by blast
  have run: "dev_desc (snd (app_main fuel e)) = descriptor_config e \<and>
   cfg_desc (snd (app_main fuel e)) = desc_configuration e \<and>
   str_desc (snd (app_main fuel e)) = string_desc_arr \<and>
   filter reads_descriptors (app_main_trace fuel e) =
     (if spi_bus_initialize_ret e = ESP_OK \<and> (\<exists>n<fuel. sdmmc_card_init_ret e n = ESP_OK) \<and>
         tinyusb_msc_storage_init_sdmmc_ret e = ESP_OK \<and>
         tinyusb_msc_storage_mount_ret e = ESP_OK
      then [Tinyusb_driver_install
              \<lparr>device_descriptor = descriptor_config e,
               string_descriptor = string_desc_arr,
               string_descriptor_count = 5,
               external_phy = False,
               configuration_descriptor = desc_configuration e\<rparr>]
      else [])"
  proof (cases rule: app_main_cases [of e fuel])
    case bus_failed
    then show ?thesis by (simp add: boot_def)
  next
    case card_absent
    then show ?thesis by (auto simp add: boot_def)
  next
    case (storage_failed n)
    then show ?thesis by (simp add: boot_def)
  next
    case (mount_failed n)
    then show ?thesis by (simp add: boot_def)
  next
    case (install_failed n)
    then have "\<exists>n<fuel. sdmmc_card_init_ret e n = ESP_OK" by blast
    with install_failed show ?thesis
      by (simp add: boot_def filter_reads_listing string_desc_arr_def)
  next
    case (restarted n m)
    then have "\<exists>n<fuel. sdmmc_card_init_ret e n = ESP_OK" by blast
    with restarted show ?thesis
      by (simp add: boot_def filter_reads_listing string_desc_arr_def)
  next
    case (idling n)
    then have "\<exists>n<fuel. sdmmc_card_init_ret e n = ESP_OK" by blast
    with idling show ?thesis
      by (simp add: boot_def filter_reads_listing string_desc_arr_def)
  qed
  have last_one: "startup fuel e = butlast (startup fuel e) @ [usb_install e]"
    by (simp add: startup_def)
  have not_read: "(\<forall>c\<in>set (butlast (startup fuel e) @ [idle fuel e]). \<forall>s d cd sd.
      c (s\<lparr>dev_desc := d, cfg_desc := cd, str_desc := sd\<rparr>) =
        (fst (c s), (snd (c s))\<lparr>dev_desc := d, cfg_desc := cd, str_desc := sd\<rparr>))"
    using tables_not_read [of _ fuel e] by blast
  have install: "(\<forall>s. usb_install e s =
      (if tinyusb_driver_install_ret e \<noteq> ESP_OK
       then (Some (Aborted (tinyusb_driver_install_ret e)),
             emits [ESP_LOGI ''USB MSC initialization'' [],
                    Tinyusb_driver_install
                      \<lparr>device_descriptor = dev_desc s,
                       string_descriptor = str_desc s,
                       string_descriptor_count = length (str_desc s),
                       external_phy = False,
                       configuration_descriptor = cfg_desc s\<rparr>,
                    Esp_error_check_failed (tinyusb_driver_install_ret e)] s)
       else (None,
             emits [ESP_LOGI ''USB MSC initialization'' [],
                    Tinyusb_driver_install
                      \<lparr>device_descriptor = dev_desc s,
                       string_descriptor = str_desc s,
                       string_descriptor_count = length (str_desc s),
                       external_phy = False,
                       configuration_descriptor = cfg_desc s\<rparr>,
                    ESP_LOGI ''USB MSC initialization DONE'' []] s)))"
    using usb_install_effect [of e] by blast
  from written run last_one not_read install show ?thesis
    by (intro conjI) (elim conjE, assumption)+
qed


theorem descriptors_read_once_never_written_witness:
  "spi_bus_initialize_ret sample_env = ESP_OK \<and>
   (\<exists>n<5. sdmmc_card_init_ret sample_env n = ESP_OK) \<and>
   dev_desc (snd (app_main 5 sample_env)) = descriptor_config sample_env \<and>
   filter reads_descriptors (app_main_trace 5 sample_env) =
     [Tinyusb_driver_install
        \<lparr>device_descriptor = descriptor_config sample_env,
         string_descriptor = string_desc_arr,
         string_descriptor_count = 5,
         external_phy = False,
         configuration_descriptor = desc_configuration sample_env\<rparr>]"
proof -
  have h: "spi_bus_initialize_ret sample_env = ESP_OK"
    "\<exists>n<5. sdmmc_card_init_ret sample_env n = ESP_OK"
    "tinyusb_msc_storage_init_sdmmc_ret sample_env = ESP_OK"
    "tinyusb_msc_storage_mount_ret sample_env = ESP_OK"
    by (simp_all add: ESP_OK_def exI [of _ 2])
  note run = descriptors_read_once_never_written [of 5 sample_env]
  have tables: "dev_desc (snd (app_main 5 sample_env)) = descriptor_config sample_env"
    using run by (elim conjE)
  have "filter reads_descriptors (app_main_trace 5 sample_env) =
     (if spi_bus_initialize_ret sample_env = ESP_OK \<and>
         (\<exists>n<5. sdmmc_card_init_ret sample_env n = ESP_OK) \<and>
         tinyusb_msc_storage_init_sdmmc_ret sample_env = ESP_OK \<and>
         tinyusb_msc_storage_mount_ret sample_env = ESP_OK
      then [Tinyusb_driver_install
              \<lparr>device_descriptor = descriptor_config sample_env,
               string_descriptor = string_desc_arr,
               string_descriptor_count = 5,
               external_phy = False,
               configuration_descriptor = desc_configuration sample_env\<rparr>]
      else [])"
    using run by (elim conjE)
  with tables h show ?thesis by simp
qed




text \<open>
  C7. The path of the mount, the path of the directory that is listed and the path that
  is asked for the sizes are \<open>BASE_PATH\<close>, which is \<open>/data\<close>; a run that asks for the
  sizes has mounted and opened that path.
\<close>

theorem base_path_everywhere:
  "BASE_PATH = ''/data'' \<and>
   (Tinyusb_msc_storage_mount p \<in> set (app_main_trace fuel e) \<or>
    Opendir p \<in> set (app_main_trace fuel e) \<or>
    Esp_vfs_fat_info p \<in> set (app_main_trace fuel e) \<longrightarrow> p = BASE_PATH) \<and>
   (Esp_vfs_fat_info p \<in> set (app_main_trace fuel e) \<longrightarrow>
      Tinyusb_msc_storage_mount p \<in> set (app_main_trace fuel e) \<and>
      Opendir p \<in> set (app_main_trace fuel e))"
proof -
  have path: "BASE_PATH = ''/data''"
    by (simp add: BASE_PATH_def)
  have dir: "Opendir p \<in> set (listing e) \<longleftrightarrow> p = BASE_PATH"
    using listing_set [of "Opendir p" e] opendir_listing [of e] by auto
  have other: "Tinyusb_msc_storage_mount p \<notin> set (listing e)"
    "Esp_vfs_fat_info p \<notin> set (listing e)"
    using listing_set [of _ e] by blast+
  have "(Tinyusb_msc_storage_mount p \<in> set (app_main_trace fuel e) \<or>
    Opendir p \<in> set (app_main_trace fuel e) \<or>
    Esp_vfs_fat_info p \<in> set (app_main_trace fuel e) \<longrightarrow> p = BASE_PATH) \<and>
   (Esp_vfs_fat_info p \<in> set (app_main_trace fuel e) \<longrightarrow>
      Tinyusb_msc_storage_mount p \<in> set (app_main_trace fuel e) \<and>
      Opendir p \<in> set (app_main_trace fuel e))"
  proof (cases rule: app_main_cases [of e fuel])
    case bus_failed
    then show ?thesis by simp
  next
    case card_absent
    then show ?thesis by simp
  next
    case (storage_failed n)
    then show ?thesis by simp
  next
    case (mount_failed n)
    then show ?thesis by simp
  next
    case (install_failed n)
    then show ?thesis by (simp add: dir other)
  next
    case (restarted n m)
    then show ?thesis by (simp add: dir other)
  next
    case (idling n)
    then show ?thesis by (simp add: dir other)
  qed
  with path show ?thesis by blast
qed

theorem base_path_everywhere_witness:
  "Tinyusb_msc_storage_mount ''/data'' \<in> set (app_main_trace 5 sample_env) \<and>
   Opendir ''/data'' \<in> set (app_main_trace 5 sample_env) \<and>
   Esp_vfs_fat_info ''/data'' \<in> set (app_main_trace 5 sample_env) \<and>
   ''/data'' = BASE_PATH"
proof -
  have "Esp_vfs_fat_info ''/data'' \<in> set (app_main_trace 5 sample_env)"
    by (simp add: sample_run BASE_PATH_def)
  with base_path_everywhere [of "''/data''" 5 sample_env] show ?thesis by blast
qed

text \<open>
  C8. If \<open>spi_bus_initialize\<close> returns anything but \<open>ESP_OK\<close>, \<open>app_main\<close> logs the error
  and returns at once: the last two events of the run are the call and the log, and the
  run has no SD card initialisation, no storage initialisation or mount and no USB
  driver installation.
\<close>

theorem bus_failure_returns:
  "spi_bus_initialize_ret e \<noteq> ESP_OK \<Longrightarrow>
     app_main_flow fuel e = Some Returned \<and>
     (\<exists>pre. app_main_trace fuel e =
        pre @ [Spi_bus_initialize (slot (SDSPI_HOST_DEFAULT e)) bus_cfg (SDSPI_DEFAULT_DMA e),
               ESP_LOGE ''Failed to initialize bus.'' []]) \<and>
     (\<forall>cfg. Sdspi_host_init_device cfg \<notin> set (app_main_trace fuel e)) \<and>
     (\<forall>h c. Sdmmc_card_init h c \<notin> set (app_main_trace fuel e)) \<and>
     (\<forall>c. Tinyusb_msc_storage_init_sdmmc c \<notin> set (app_main_trace fuel e)) \<and>
     (\<forall>p. Tinyusb_msc_storage_mount p \<notin> set (app_main_trace fuel e)) \<and>
     (\<forall>cfg. Tinyusb_driver_install cfg \<notin> set (app_main_trace fuel e))"
  by (simp add: app_main_run)

theorem bus_failure_returns_witness:
  "spi_bus_initialize_ret (sample_env\<lparr>spi_bus_initialize_ret := 0x103\<rparr>) \<noteq> ESP_OK \<and>
   app_main_flow 5 (sample_env\<lparr>spi_bus_initialize_ret := 0x103\<rparr>) = Some Returned \<and>
   (\<forall>h c. Sdmmc_card_init h c \<notin>
      set (app_main_trace 5 (sample_env\<lparr>spi_bus_initialize_ret := 0x103\<rparr>))) \<and>
   (\<forall>cfg. Tinyusb_driver_install cfg \<notin>
      set (app_main_trace 5 (sample_env\<lparr>spi_bus_initialize_ret := 0x103\<rparr>)))"
proof -
  have h: "spi_bus_initialize_ret (sample_env\<lparr>spi_bus_initialize_ret := 0x103\<rparr>) \<noteq> ESP_OK"
    by (simp add: ESP_OK_def)
  from bus_failure_returns [OF h, of 5] h show ?thesis by blast
qed

text \<open>
  C9. If \<open>malloc\<close> returns \<open>NULL\<close>, the call is followed by the debug log and then by
  the next statement, and the run ends the way it ends for any other result of
  \<open>malloc\<close>. Every call that takes the card pointer is given \<open>NULL\<close>: the card
  initialisation once the bus is up, and the card information and the USB storage
  configuration once a card initialisation succeeded.
\<close>

theorem null_card_is_used:
  "malloc_ret e = None \<Longrightarrow>
     (\<forall>c. app_main_flow fuel (e\<lparr>malloc_ret := c\<rparr>) = app_main_flow fuel e) \<and>
     drop 8 (take 11 (app_main_trace fuel e)) =
       [Malloc (sizeof_sdmmc_card_t e),
        ESP_LOGD ''could not locate new sdmmc_card_t'' [],
        ESP_LOGI ''Initializing SD card'' []] \<and>
     (\<forall>h c. Sdmmc_card_init h c \<in> set (app_main_trace fuel e) \<longrightarrow> c = None) \<and>
     (\<forall>c. Sdmmc_card_print_info c \<in> set (app_main_trace fuel e) \<longrightarrow> c = None) \<and>
     (\<forall>c. Tinyusb_msc_storage_init_sdmmc c \<in> set (app_main_trace fuel e) \<longrightarrow> c = None) \<and>
     (spi_bus_initialize_ret e = ESP_OK \<and> 0 < fuel \<longrightarrow>
        Sdmmc_card_init (SDSPI_HOST_DEFAULT e) None \<in> set (app_main_trace fuel e)) \<and>
     (spi_bus_initialize_ret e = ESP_OK \<and> (\<exists>n<fuel. sdmmc_card_init_ret e n = ESP_OK) \<longrightarrow>
        Sdmmc_card_print_info None \<in> set (app_main_trace fuel e) \<and>
        Tinyusb_msc_storage_init_sdmmc None \<in> set (app_main_trace fuel e))"
proof -
  assume null: "malloc_ret e = None"
  have no_card: "\<And>h c. Sdmmc_card_init h c \<notin> set (listing e)"
    "\<And>c. Sdmmc_card_print_info c \<notin> set (listing e)"
    "\<And>c. Tinyusb_msc_storage_init_sdmmc c \<notin> set (listing e)"
    using listing_set [of _ e] by blast+
  have "drop 8 (take 11 (app_main_trace fuel e)) =
       [Malloc (sizeof_sdmmc_card_t e),
        ESP_LOGD ''could not locate new sdmmc_card_t'' [],
        ESP_LOGI ''Initializing SD card'' []] \<and>
     (\<forall>h c. Sdmmc_card_init h c \<in> set (app_main_trace fuel e) \<longrightarrow> c = None) \<and>
     (\<forall>c. Sdmmc_card_print_info c \<in> set (app_main_trace fuel e) \<longrightarrow> c = None) \<and>
     (\<forall>c. Tinyusb_msc_storage_init_sdmmc c \<in> set (app_main_trace fuel e) \<longrightarrow> c = None) \<and>
     (spi_bus_initialize_ret e = ESP_OK \<and> 0 < fuel \<longrightarrow>
        Sdmmc_card_init (SDSPI_HOST_DEFAULT e) None \<in> set (app_main_trace fuel e)) \<and>
     (spi_bus_initialize_ret e = ESP_OK \<and> (\<exists>n<fuel. sdmmc_card_init_ret e n = ESP_OK) \<longrightarrow>
        Sdmmc_card_print_info None \<in> set (app_main_trace fuel e) \<and>
        Tinyusb_msc_storage_init_sdmmc None \<in> set (app_main_trace fuel e))"
  proof (cases rule: app_main_cases [of e fuel])
    case bus_failed
    then show ?thesis by (simp add: null)
  next
    case card_absent
    then show ?thesis by (auto simp add: null)
  next
    case (storage_failed n)
    then show ?thesis by (simp add: null)
  next
    case (mount_failed n)
    then show ?thesis by (simp add: null)
  next
    case (install_failed n)
    then show ?thesis by (simp add: null no_card)
  next
    case (restarted n m)
    then show ?thesis by (simp add: null no_card)
  next
    case (idling n)
    then show ?thesis by (simp add: null no_card)
  qed
  then show ?thesis using flow_malloc [where fuel = fuel and e = e] by blast
qed

theorem null_card_is_used_witness:
  "malloc_ret (sample_env\<lparr>malloc_ret := None\<rparr>) = None \<and>
   spi_bus_initialize_ret (sample_env\<lparr>malloc_ret := None\<rparr>) = ESP_OK \<and>
   sdmmc_card_init_ret (sample_env\<lparr>malloc_ret := None\<rparr>) 2 = ESP_OK \<and>
   app_main_flow 5 (sample_env\<lparr>malloc_ret := None\<rparr>) = app_main_flow 5 sample_env \<and>
   ESP_LOGD ''could not locate new sdmmc_card_t'' [] =
     app_main_trace 5 (sample_env\<lparr>malloc_ret := None\<rparr>) ! 9 \<and>
   Sdmmc_card_init (SDSPI_HOST_DEFAULT (sample_env\<lparr>malloc_ret := None\<rparr>)) None
     \<in> set (app_main_trace 5 (sample_env\<lparr>malloc_ret := None\<rparr>)) \<and>
   Sdmmc_card_print_info None \<in> set (app_main_trace 5 (sample_env\<lparr>malloc_ret := None\<rparr>)) \<and>
   Tinyusb_msc_storage_init_sdmmc None \<in> set (app_main_trace 5 (sample_env\<lparr>malloc_ret := None\<rparr>))"
proof -
  let ?e = "sample_env\<lparr>malloc_ret := None\<rparr>"
  have h: "malloc_ret ?e = None" "spi_bus_initialize_ret ?e = ESP_OK"
    "sdmmc_card_init_ret ?e 2 = ESP_OK" "(0::nat) < 5" "(2::nat) < 5"
    by (simp_all add: ESP_OK_def)
  from null_card_is_used [OF h(1), of 5]
  have *: "app_main_flow 5 (?e\<lparr>malloc_ret := Some 4096\<rparr>) = app_main_flow 5 ?e"
    "drop 8 (take 11 (app_main_trace 5 ?e)) =
       [Malloc (sizeof_sdmmc_card_t ?e),
        ESP_LOGD ''could not locate new sdmmc_card_t'' [],
        ESP_LOGI ''Initializing SD card'' []]"
    "Sdmmc_card_init (SDSPI_HOST_DEFAULT ?e) None \<in> set (app_main_trace 5 ?e)"
    "Sdmmc_card_print_info None \<in> set (app_main_trace 5 ?e)"
    "Tinyusb_msc_storage_init_sdmmc None \<in> set (app_main_trace 5 ?e)"
    using h by blast+
  have same: "?e\<lparr>malloc_ret := Some 4096\<rparr> = sample_env"
    by (simp add: sample_env_def)
  have "length (drop 8 (take 11 (app_main_trace 5 ?e))) = 3"
    using *(2) by simp
  then have "11 \<le> length (app_main_trace 5 ?e)" by simp
  then have "drop 8 (take 11 (app_main_trace 5 ?e)) ! 1 = app_main_trace 5 ?e ! 9"
    by simp
  with *(2) have "ESP_LOGD ''could not locate new sdmmc_card_t'' [] = app_main_trace 5 ?e ! 9"
    by simp
  with * h same show ?thesis by simp
qed

text \<open>
  C10. The polling loop does nothing but polling rounds until button A registers a
  click, and then calls \<open>esp_restart\<close>; a round appends its three events and leaves
  the rest of the state as it is. A run that polls ends restarted after a click, or is
  still polling, with no restart, when there was none.
\<close>

theorem idle_loop_restart_only:
  "(\<exists>m\<le>fuel. (\<forall>j<m. \<not> BtnA_wasClicked_ret e (k + j)) \<and>
      (if m < fuel
       then BtnA_wasClicked_ret e (k + m) \<and>
            poll_loop fuel e k s =
              (Restarted, emits (concat (replicate m idle_round) @
                                 [M5_update, BtnA_wasClicked, Esp_restart]) s)
       else poll_loop fuel e k s =
              (Spinning, emits (concat (replicate m idle_round)) s))) \<and>
   (M5_update \<in> set (app_main_trace fuel e) \<longrightarrow>
      app_main_flow fuel e = Some Restarted \<and> (\<exists>m<fuel. BtnA_wasClicked_ret e m) \<and>
        last (app_main_trace fuel e) = Esp_restart \<or>
      app_main_flow fuel e = Some Spinning \<and> (\<forall>j<fuel. \<not> BtnA_wasClicked_ret e j) \<and>
        Esp_restart \<notin> set (app_main_trace fuel e))"
proof (intro conjI impI)
  show "\<exists>m\<le>fuel. (\<forall>j<m. \<not> BtnA_wasClicked_ret e (k + j)) \<and>
      (if m < fuel
       then BtnA_wasClicked_ret e (k + m) \<and>
            poll_loop fuel e k s =
              (Restarted, emits (concat (replicate m idle_round) @
                                 [M5_update, BtnA_wasClicked, Esp_restart]) s)
       else poll_loop fuel e k s =
              (Spinning, emits (concat (replicate m idle_round)) s))"
  proof (cases rule: first_cases [of fuel "\<lambda>j. BtnA_wasClicked_ret e (k + j)"])
    case (first m)
    then show ?thesis
      using poll_loop_restarted [of m fuel e k s] by (intro exI [of _ m]) simp
  next
    case none
    then show ?thesis
      using poll_loop_spinning [of fuel e k s] by (intro exI [of _ fuel]) simp
  qed
next
  assume polled: "M5_update \<in> set (app_main_trace fuel e)"
  show "app_main_flow fuel e = Some Restarted \<and> (\<exists>m<fuel. BtnA_wasClicked_ret e m) \<and>
        last (app_main_trace fuel e) = Esp_restart \<or>
      app_main_flow fuel e = Some Spinning \<and> (\<forall>j<fuel. \<not> BtnA_wasClicked_ret e j) \<and>
        Esp_restart \<notin> set (app_main_trace fuel e)"
  proof (cases rule: app_main_cases [of e fuel])
    case bus_failed
    with polled show ?thesis by (simp split: if_splits)
  next
    case card_absent
    with polled show ?thesis by (simp split: if_splits)
  next
    case (storage_failed n)
    with polled show ?thesis by (simp split: if_splits)
  next
    case (mount_failed n)
    with polled show ?thesis by (simp split: if_splits)
  next
    case (install_failed n)
    with polled show ?thesis by (simp add: listing_idle split: if_splits)
  next
    case (restarted n m)
    have "app_main_flow fuel e = Some Restarted" "last (app_main_trace fuel e) = Esp_restart"
      by (simp_all add: restarted(11))
    with restarted(8,10) show ?thesis by blast
  next
    case (idling n)
    have "app_main_flow fuel e = Some Spinning" "Esp_restart \<notin> set (app_main_trace fuel e)"
      by (simp_all add: idling(9) listing_idle)
    with idling(8) show ?thesis by blast
  qed
qed

theorem idle_loop_restart_only_witness:
  "M5_update \<in> set (app_main_trace 5 sample_env) \<and>
   app_main_flow 5 sample_env = Some Restarted \<and>
   (\<exists>m<5. BtnA_wasClicked_ret sample_env m) \<and>
   last (app_main_trace 5 sample_env) = Esp_restart"
proof -
  have polled: "M5_update \<in> set (app_main_trace 5 sample_env)"
    by (simp add: sample_run)
  have "app_main_flow 5 sample_env \<noteq> Some Spinning"
    by (simp add: sample_run)
  with idle_loop_restart_only [of 5 sample_env 0 "boot sample_env"] polled
  show ?thesis by blast
qed


end
